theory Spec2Isabelle
  imports Main
begin

section \<open>The repricing transform \<open>ConvertSegFinal\<close>\<close>

text \<open>
  This theory embeds \<^verbatim>\<open>ConvertSegFinal\<close> of
  \<^verbatim>\<open>tools_factory/price_lock/repricing_script.js\<close>: one JavaScript function that turns
  a provider segment \<^verbatim>\<open>seg_\<close> into the record \<^verbatim>\<open>Seg_L\<close> and returns its JSON text.

  Conventions of the embedding.
  \<^item> A property that the code copies without looking at it has the type \<open>jsval\<close>.
    A property that the code computes with has the type the code uses it at
    (a number is an \<open>int\<close>, a text a \<open>string\<close>, an array a list).
  \<^item> A property that the code tests with \<^verbatim>\<open>!= null\<close> is optional; \<open>None\<close>
    stands for both \<^verbatim>\<open>null\<close> and \<^verbatim>\<open>undefined\<close>, which that test does not tell apart.
    A property that the code reads with no such test anywhere is present.
  \<^item> Reading a property of \<^verbatim>\<open>undefined\<close> or \<^verbatim>\<open>null\<close> throws a \<^verbatim>\<open>TypeError\<close>;
    every such read of the source is a branch \<open>Inl TypeError\<close> of the model.
  \<^item> The writes of the function to its argument \<^verbatim>\<open>seg_\<close> are kept: the model returns
    the segment as the call leaves it, next to the value returned.
  \<^item> Properties that are copied from the input to the like-named output property and
    take part in no branch are left out (of the segment: \<^verbatim>\<open>id BKID SD SK FTpInd PT CNP
    CHP RFIN SSK CT Nt CpNt svg Ssn Rmk VI SeatAv l_BF I_BF I_BFAv FareRule\<close>; of a
    leg: \<^verbatim>\<open>ADT DTM ATM FN STP CC CB DUR DTER ATER GRP ACTYP AST LOVAT LOVDU OPB ET SA
    FlightDetailRefKey\<close>; of a fare option: \<^verbatim>\<open>INSP FIAK FIA FN FId\<close> and
    \<^verbatim>\<open>L_PF[0].INSAmtPP\<close>, whose read is kept where it can throw), and so are the
    properties set to a constant (\<^verbatim>\<open>FareTypeUI lstOutBound lstInBound\<close>).
  \<^item> Amounts are integers: the rounding of JavaScript's floating-point numbers is outside
    the model.
\<close>

subsection \<open>Values and errors\<close>

datatype error = TypeError

datatype jsval = Undefined | Null | Bool bool | Num int | Str string | Arr "jsval list"

text \<open>\<^verbatim>\<open>v != null\<close> is false for \<^verbatim>\<open>null\<close> and \<^verbatim>\<open>undefined\<close> alone.\<close>

definition nullish :: "jsval \<Rightarrow> bool" where
  "nullish v = (v = Undefined \<or> v = Null)"

text \<open>\<^verbatim>\<open>xs[i]\<close> on an array: \<^verbatim>\<open>undefined\<close> beyond the end.\<close>

definition nth_opt :: "'a list \<Rightarrow> nat \<Rightarrow> 'a option" where
  "nth_opt xs i = (if i < length xs then Some (xs ! i) else None)"

definition str_or_undefined :: "string option \<Rightarrow> jsval" where
  "str_or_undefined s = (case s of None \<Rightarrow> Undefined | Some t \<Rightarrow> Str t)"

definition val_or_undefined :: "jsval option \<Rightarrow> jsval" where
  "val_or_undefined s = (case s of None \<Rightarrow> Undefined | Some t \<Rightarrow> t)"

text \<open>String concatenation writes \<^verbatim>\<open>undefined\<close> as the text \<^verbatim>\<open>"undefined"\<close>.\<close>

definition concat_str :: "string option \<Rightarrow> string" where
  "concat_str s = (case s of None \<Rightarrow> ''undefined'' | Some t \<Rightarrow> t)"

subsection \<open>String operations\<close>

text \<open>\<^verbatim>\<open>s.split(c)\<close> for a separator of one character.\<close>

fun str_split :: "char \<Rightarrow> string \<Rightarrow> string list" where
  "str_split c [] = [[]]"
| "str_split c (x # xs) =
     (if x = c then [] # str_split c xs
      else (case str_split c xs of [] \<Rightarrow> [[x]] | y # ys \<Rightarrow> (x # y) # ys))"

text \<open>\<^verbatim>\<open>s.substring(a, b)\<close> for \<open>a \<le> b\<close>, as the code calls it.\<close>

definition substring :: "nat \<Rightarrow> nat \<Rightarrow> string \<Rightarrow> string" where
  "substring a b s = take (b - a) (drop a s)"

definition upper_char :: "char \<Rightarrow> char" where
  "upper_char c =
     (case map_of (zip ''abcdefghijklmnopqrstuvwxyz'' ''ABCDEFGHIJKLMNOPQRSTUVWXYZ'') c of
        None \<Rightarrow> c | Some u \<Rightarrow> u)"

text \<open>\<^verbatim>\<open>s.toUpperCase()\<close> on the ASCII letters.\<close>

definition toUpperCase :: "string \<Rightarrow> string" where
  "toUpperCase s = map upper_char s"

subsection \<open>Dates of the legacy hand-baggage table\<close>

text \<open>
  A \<^verbatim>\<open>Date\<close> is its time value in milliseconds, \<open>None\<close> for an invalid date.
  \<open>days_from_civil y m d\<close> is the day number of the date \<open>y\<close>-\<open>m\<close>-\<open>d\<close>
  (month 1 to 12) counted from 1970-01-01.
\<close>

definition days_from_civil :: "int \<Rightarrow> int \<Rightarrow> int \<Rightarrow> int" where
  "days_from_civil y m d =
     (let y' = (if m \<le> 2 then y - 1 else y);
          era = y' div 400;
          yoe = y' - era * 400;
          doy = (153 * (m + (if m > 2 then - 3 else 9)) + 2) div 5 + d - 1;
          doe = yoe * 365 + yoe div 4 - yoe div 100 + doy
      in era * 146097 + doe - 719468)"

definition digit_val :: "char \<Rightarrow> int option" where
  "digit_val c = map_of (zip ''0123456789'' [0, 1, 2, 3, 4, 5, 6, 7, 8, 9]) c"

fun digits_val :: "int \<Rightarrow> string \<Rightarrow> int option" where
  "digits_val acc [] = Some acc"
| "digits_val acc (c # cs) =
     (case digit_val c of None \<Rightarrow> None | Some d \<Rightarrow> digits_val (acc * 10 + d) cs)"

text \<open>
  \<^verbatim>\<open>ToNumber\<close> of a text, as the \<^verbatim>\<open>Date\<close> constructor applies it to its arguments:
  the empty text is 0, a run of decimal digits is its value, \<^verbatim>\<open>undefined\<close> is NaN.
  Other numeric spellings (blanks, signs, fractions, exponents, hexadecimal) are read as
  NaN here; no result below depends on the value.
\<close>

definition ToNumber :: "string option \<Rightarrow> int option" where
  "ToNumber s = (case s of None \<Rightarrow> None | Some t \<Rightarrow> digits_val 0 t)"

text \<open>
  \<^verbatim>\<open>new Date(year, month, day)\<close>: local midnight of that day, month counted from 0,
  a year from 0 to 99 meaning 1900 + year, months beyond 11 carried into the year.
  \<open>tza\<close> is the offset of the host's time zone from UTC in milliseconds.
\<close>

definition new_Date :: "int \<Rightarrow> string option \<Rightarrow> string option \<Rightarrow> string option \<Rightarrow> int option" where
  "new_Date tza y m d =
     (case (ToNumber y, ToNumber m, ToNumber d) of
        (Some yn, Some mn, Some dn) \<Rightarrow>
          (let yr = (if 0 \<le> yn \<and> yn \<le> 99 then 1900 + yn else yn);
               day = days_from_civil (yr + mn div 12) (mn mod 12 + 1) 1 + dn - 1
           in Some (day * 86400000 - tza))
      | _ \<Rightarrow> None)"

text \<open>\<^verbatim>\<open>new Date("YYYY-MM-DD")\<close>: midnight UTC of that day.\<close>

definition Date_of_ISO :: "int \<Rightarrow> int \<Rightarrow> int \<Rightarrow> int option" where
  "Date_of_ISO y m d = Some (days_from_civil y m d * 86400000)"

text \<open>\<^verbatim>\<open>a <= b\<close> on two dates: false when either is invalid.\<close>

definition date_le :: "int option \<Rightarrow> int option \<Rightarrow> bool" where
  "date_le a b = (case (a, b) of (Some x, Some y) \<Rightarrow> x \<le> y | _ \<Rightarrow> False)"

definition GetMonth :: "string \<Rightarrow> string option" where
  "GetMonth month =
     map_of [(''Jan'', ''01''), (''Feb'', ''02''), (''Mar'', ''03''), (''Apr'', ''04''),
             (''May'', ''05''), (''Jun'', ''06''), (''Jul'', ''07''), (''Aug'', ''08''),
             (''Sep'', ''09''), (''Oct'', ''10''), (''Nov'', ''11''), (''Dec'', ''12'')] month"

subsection \<open>The input\<close>

text \<open>An entry of \<^verbatim>\<open>Res_L.dctFltDtl\<close>: the raw leg.\<close>

record RawLeg =
  fleg_AC :: string
  fleg_OG :: string
  fleg_DT :: string
  fleg_DDT :: string
  fleg_HBU :: jsval
  fleg_HBW :: jsval
  fleg_LOV :: jsval
  fleg_ProviderCode :: jsval

text \<open>\<^verbatim>\<open>Res_L\<close>: the lookup tables.\<close>

record Lookups =
  Res_L_dctFltDtl :: "(string \<rightharpoonup> RawLeg) option"
  Res_L_C :: "(string \<rightharpoonup> string) option"
  Res_L_A :: "(string \<rightharpoonup> string) option"
  Res_L_Cnty :: "(string \<rightharpoonup> string) option"

text \<open>
  An entry of \<^verbatim>\<open>seg_.b\<close>: a bound. The objects \<^verbatim>\<open>dctBKKY\<close>, \<^verbatim>\<open>dctBagg\<close> and
  \<^verbatim>\<open>dctCanPo\<close> are lists of key and value in the order of their keys, which are
  distinct, so that \<^verbatim>\<open>Object.values\<close> is the list of the values.
\<close>

record RawBound =
  b_BDT :: jsval
  b_dctCanPo :: "(string \<times> jsval) list option"
  b_FL :: "string list option"
  b_lFC :: "string list"
  b_LLOV :: "jsval list option"
  b_lstBagg :: "string list"
  b_lstHBagg :: "string list option"
  b_dctBKKY :: "(string \<times> string list) list option"
  b_dctBagg :: "(string \<times> string list) list"
  b_BkKY :: "string list option"
  b_JyTm :: jsval
  b_CT :: jsval

text \<open>An entry of \<^verbatim>\<open>L_PF\<close>: the fare of one passenger type.\<close>

record PassengerFareRow =
  pf_PT :: string
  pf_BF :: int
  pf_TF :: int
  pf_TTX :: int
  pf_MKP :: int
  pf_COM :: "int option"
  pf_CB :: "int option"
  pf_TDS :: "int option"
  pf_SF :: "int option"
  pf_TA :: "int option"
  pf_ESF :: "int option"
  pf_RF :: string
  pf_BW :: jsval

text \<open>An entry of \<^verbatim>\<open>seg_.lstFr\<close>, and the value of \<^verbatim>\<open>seg_.Fr\<close>: a fare option.\<close>

record RawFareOption =
  fr_fs :: string
  fr_L_PF :: "PassengerFareRow list option"
  fr_IsHB :: jsval
  fr_CT_UPG :: jsval
  fr_ItnanaryKey :: jsval
  fr_CouponCodeList :: jsval
  fr_isAddCL :: jsval
  fr_CpnTxtS :: jsval
  fr_DA :: jsval
  fr_CC :: "string option"
  fr_BDKEY :: jsval
  fr_SID :: "string option"
  fr_BF :: jsval
  fr_TFRMP :: jsval
  fr_TTXMP :: jsval
  fr_TF :: int
  fr_TTDIS :: int
  fr_FRTYPID :: jsval
  fr_FRTYP :: jsval
  fr_L_Bran :: jsval
  fr_FR :: jsval

text \<open>\<^verbatim>\<open>seg_\<close>: the segment.\<close>

record RawSegment =
  seg_SID :: "string option"
  seg_IK :: jsval
  seg_DAMT :: jsval
  seg_CpnTxtS :: jsval
  seg_CCL :: jsval
  seg_IACL :: jsval
  seg_b :: "RawBound list option"
  seg_EID :: int
  seg_RF :: "bool option"
  seg_lstFr :: "RawFareOption list option"
  seg_l_HB :: jsval
  seg_Fr :: "RawFareOption option"
  seg_I_RT :: "bool option"
  seg_AP :: "int option"
  seg_APT :: "int option"
  seg_CP :: "int option"
  seg_CPT :: "int option"
  seg_IP :: "int option"
  seg_IPT :: "int option"
  seg_TT :: "int option"
  seg_TF :: "int option"
  seg_TTDIS :: "int option"
  seg_LCP :: jsval
  seg_CBAMT :: "int option"
  seg_Comm :: "int option"
  seg_TDS :: "int option"
  seg_SF :: "int option"
  seg_IHB :: jsval
  seg_Is_HBT :: jsval
  seg_CC :: "string option"
  seg_IsFlightOutOfPolicy :: jsval

subsection \<open>The output\<close>

text \<open>\<^verbatim>\<open>fLeg_L\<close>: a converted leg. \<open>empty_fLeg_L\<close> is the object \<^verbatim>\<open>{}\<close>.\<close>

record fLeg_L =
  fLeg_L_airName :: "string option"
  fLeg_L_org :: string
  fLeg_L_dest :: string
  fLeg_L_depDT :: string
  fLeg_L_HBU :: jsval
  fLeg_L_HBW :: jsval
  fLeg_L_fareCls :: "string option"
  fLeg_L_LyOvr :: jsval
  fLeg_L_BaggageUnit :: jsval
  fLeg_L_BaggageWeight :: jsval
  fLeg_L_ProviderCode :: jsval

definition empty_fLeg_L :: fLeg_L where
  "empty_fLeg_L =
     \<lparr>fLeg_L_airName = None, fLeg_L_org = '''', fLeg_L_dest = '''', fLeg_L_depDT = '''',
      fLeg_L_HBU = Undefined, fLeg_L_HBW = Undefined, fLeg_L_fareCls = None,
      fLeg_L_LyOvr = Undefined, fLeg_L_BaggageUnit = Undefined,
      fLeg_L_BaggageWeight = Undefined, fLeg_L_ProviderCode = Undefined\<rparr>"

text \<open>\<^verbatim>\<open>Bnd_L\<close>: a converted bound.\<close>

record Bnd_L =
  Bnd_L_bndDTL :: jsval
  Bnd_L_dctCanPo :: "(string \<times> jsval) list option"
  Bnd_L_Legs :: "fLeg_L list"
  Bnd_L_Refundable :: string
  Bnd_L_IsBaggageFare :: jsval
  Bnd_L_JrnyTm :: jsval
  Bnd_L_ConnType :: jsval
  Bnd_L_lstCanPo :: jsval

text \<open>
  \<^verbatim>\<open>Seg_L.Fare\<close> as the code assembles it from the selected fare option. The lists
  \<^verbatim>\<open>lstPxPF\<close>, \<^verbatim>\<open>lstTxDt\<close> and \<^verbatim>\<open>lstCancellationPcy\<close> stay empty: the row object
  \<^verbatim>\<open>PxFare_L\<close> that the loop over the rows fills is never appended to any of them.
\<close>

record Fare_L =
  Fare_L_lstPxPF :: "jsval list"
  Fare_L_BscFr :: jsval
  Fare_L_TtlFrWthMkp :: jsval
  Fare_L_TtlTxWthMkp :: jsval
  Fare_L_TTLFr :: int
  Fare_L_lstTxDt :: "jsval list"
  Fare_L_ttlDiscount :: int
  Fare_L_FareTypeID :: jsval
  Fare_L_FareType :: jsval
  Fare_L_BrandKeys :: jsval
  Fare_L_Branded :: jsval
  Fare_L_FareRule :: jsval

text \<open>\<^verbatim>\<open>Seg_L\<close>: the record the function builds.\<close>

record Seg_L =
  Seg_L_searchId :: "string option"
  Seg_L_ItineraryKey :: jsval
  Seg_L_SearchOrigin :: string
  Seg_L_SearchDestination :: string
  Seg_L_DiscountAmount :: jsval
  Seg_L_CpnTxtS :: jsval
  Seg_L_CCL :: jsval
  Seg_L_IACL :: jsval
  Seg_L_CpnLstDis :: jsval
  Seg_L_bonds :: "Bnd_L list"
  Seg_L_CT_UPG :: jsval
  Seg_L_selectedFare :: nat
  Seg_L_lstFr :: "RawFareOption list option"
  Seg_L_brandFareKey :: jsval
  Seg_L_Fare :: "Fare_L option"
  Seg_L_AdultPrice :: "int option"
  Seg_L_ChildPrice :: "int option"
  Seg_L_InfantPrice :: "int option"
  Seg_L_AdultPriceT :: "int option"
  Seg_L_ChildPriceT :: "int option"
  Seg_L_InfantPriceT :: "int option"
  Seg_L_TotalTax :: "int option"
  Seg_L_TotalFare :: "int option"
  Seg_L_ESF :: "int option"
  Seg_L_MarkUP :: "int option"
  Seg_L_ttlDiscount :: "int option"
  Seg_L_lstCanPo :: jsval
  Seg_L_IsHndBagg :: jsval
  Seg_L_IsHndBaggTp :: jsval
  Seg_L_IsRoundTrip :: "bool option"
  Seg_L_EngineId :: int
  Seg_L_CouponCode :: "string option"
  Seg_L_CBAMT :: "int option"
  Seg_L_Comm :: "int option"
  Seg_L_TDS :: "int option"
  Seg_L_SF :: "int option"
  Seg_L_IsFlightOutOfPolicy :: jsval

text \<open>
  What the function returns: \<open>Serialized r\<close> is the text \<^verbatim>\<open>JSON.stringify(Seg_L)\<close>
  of the record \<open>r\<close>, \<open>Partial r\<close> is the record itself, as the \<^verbatim>\<open>catch\<close> of the
  last statement returns it.
\<close>

datatype returned = Serialized Seg_L | Partial Seg_L

subsection \<open>The lookups\<close>

definition GetFltDtl :: "Lookups option \<Rightarrow> string \<Rightarrow> RawLeg option" where
  "GetFltDtl Res_L key =
     (case Res_L of None \<Rightarrow> None
      | Some R \<Rightarrow> (case Res_L_dctFltDtl R of None \<Rightarrow> None | Some d \<Rightarrow> d key))"

definition GetAirLineName :: "Lookups option \<Rightarrow> string \<Rightarrow> string option" where
  "GetAirLineName Res_L key =
     (case Res_L of None \<Rightarrow> None
      | Some R \<Rightarrow> (case Res_L_C R of None \<Rightarrow> None | Some d \<Rightarrow> d key))"

definition GetAirportName :: "Lookups option \<Rightarrow> string \<Rightarrow> string option" where
  "GetAirportName Res_L key =
     (case Res_L of None \<Rightarrow> None
      | Some R \<Rightarrow>
          (case Res_L_A R of None \<Rightarrow> None
           | Some d \<Rightarrow>
               (case d key of None \<Rightarrow> Some key
                | Some n \<Rightarrow> if n \<noteq> '''' then Some n else Some key)))"

text \<open>
  \<^verbatim>\<open>CountryName\<close> tests \<^verbatim>\<open>Res_L.A\<close> and then reads \<^verbatim>\<open>Res_L.Cnty[key_]\<close>: with the
  airport table present and the country table absent the read throws.
\<close>

definition CountryName :: "Lookups option \<Rightarrow> string \<Rightarrow> error + string option" where
  "CountryName Res_L key =
     (case Res_L of None \<Rightarrow> Inr None
      | Some R \<Rightarrow>
          (case Res_L_A R of None \<Rightarrow> Inr None
           | Some a \<Rightarrow>
               (case Res_L_Cnty R of None \<Rightarrow> Inl TypeError | Some d \<Rightarrow> Inr (d key))))"

subsection \<open>A leg\<close>

text \<open>
  Lines 133 to 170: the legacy table, on the leg built so far. The date is read from the
  second piece of \<^verbatim>\<open>fleg.DDT\<close> split at \<^verbatim>\<open>-\<close>: two characters of day, three of
  month, four of year.
\<close>

definition legacyHandBaggage :: "int \<Rightarrow> int \<Rightarrow> string \<Rightarrow> fLeg_L \<Rightarrow> fLeg_L" where
  "legacyHandBaggage tza EID DDT l =
     (if length (str_split CHR ''-'' DDT) > 1 then
        (let DepDate0 = str_split CHR ''-'' DDT ! 1;
             month = GetMonth (substring 2 5 DepDate0);
             DepDate = new_Date tza (Some (substring 5 9 DepDate0)) month
                         (Some (substring 0 2 DepDate0));
             l1 = (if date_le DepDate (Date_of_ISO 2020 9 30)
                      \<and> (EID \<noteq> 5 \<or> EID \<noteq> 10 \<or> EID \<noteq> 1)
                   then l\<lparr>fLeg_L_HBU := Str ''KG'', fLeg_L_HBW := Num 7\<rparr>
                   else l\<lparr>fLeg_L_HBU := Str ''KG'', fLeg_L_HBW := Num 7\<rparr>);
             l2 = (if EID = 1
                   then l1\<lparr>fLeg_L_HBU := Str ''KG'', fLeg_L_HBW := Num 7\<rparr> else l1);
             l3 = (if EID = 0 \<and> date_le DepDate (Date_of_ISO 2020 12 31)
                   then l2\<lparr>fLeg_L_HBU := Str ''KG'', fLeg_L_HBW := Num 7\<rparr> else l2);
             l4 = (if EID = 31
                   then l3\<lparr>fLeg_L_HBU := Str ''KG'', fLeg_L_HBW := Num 5\<rparr> else l3)
         in l4)
      else l)"

text \<open>The two pieces \<^verbatim>\<open>s.split("|")[0]\<close> and \<^verbatim>\<open>s.split("|")[1]\<close> of a baggage text.\<close>

definition unit_of :: "string \<Rightarrow> jsval" where
  "unit_of s = str_or_undefined (nth_opt (str_split CHR ''|'' s) 0)"

definition weight_of :: "string \<Rightarrow> jsval" where
  "weight_of s = str_or_undefined (nth_opt (str_split CHR ''|'' s) 1)"

text \<open>
  Lines 196 to 204: the per-leg lists \<^verbatim>\<open>lstBagg\<close> and \<^verbatim>\<open>lstHBagg\<close> of the bound.
\<close>

definition perLegBaggage :: "RawBound \<Rightarrow> nat \<Rightarrow> fLeg_L \<Rightarrow> fLeg_L" where
  "perLegBaggage b lc l =
     (let l1 = (if length (b_lstBagg b) > lc
                then l\<lparr>fLeg_L_BaggageUnit := unit_of (b_lstBagg b ! lc),
                       fLeg_L_BaggageWeight := weight_of (b_lstBagg b ! lc)\<rparr>
                else l)
      in (case b_lstHBagg b of
            None \<Rightarrow> l1
          | Some hs \<Rightarrow>
              if length hs > lc
              then l1\<lparr>fLeg_L_HBU := unit_of (hs ! lc), fLeg_L_HBW := weight_of (hs ! lc)\<rparr>
              else l1))"

text \<open>
  Lines 209 to 226: the provider code and the baggage of the selected fare. The variable
  \<^verbatim>\<open>idFareBK\<close> belongs to the whole function; the leg returns it as it leaves it.
\<close>

definition perFareBaggage ::
  "RawSegment \<Rightarrow> nat \<Rightarrow> RawBound \<Rightarrow> RawLeg \<Rightarrow> string \<Rightarrow> nat \<Rightarrow> fLeg_L
     \<Rightarrow> error + (string \<times> fLeg_L)" where
  "perFareBaggage seg fareId b fleg idFareBK lc l0 =
     (let l = l0\<lparr>fLeg_L_ProviderCode := Str ''''\<rparr> in
      case b_dctBKKY b of
        None \<Rightarrow>
          (case b_BkKY b of
             Some ks \<Rightarrow> Inr (idFareBK, l\<lparr>fLeg_L_ProviderCode := str_or_undefined (nth_opt ks lc)\<rparr>)
           | None \<Rightarrow> Inr (idFareBK, l\<lparr>fLeg_L_ProviderCode := fleg_ProviderCode fleg\<rparr>))
      | Some d \<Rightarrow>
          if length (map snd d) > fareId then
            (case seg_lstFr seg of
               None \<Rightarrow> Inl TypeError
             | Some frs \<Rightarrow>
                 (case nth_opt frs fareId of
                    None \<Rightarrow> Inl TypeError
                  | Some fr \<Rightarrow>
                      (case map_of d (fr_fs fr) of
                         None \<Rightarrow> Inl TypeError
                       | Some ks \<Rightarrow>
                           if length ks > lc then
                             (case map_of (b_dctBagg b) (fr_fs fr) of
                                None \<Rightarrow> Inl TypeError
                              | Some bs \<Rightarrow>
                                  (case nth_opt bs lc of
                                     None \<Rightarrow> Inl TypeError
                                   | Some s \<Rightarrow>
                                       Inr (fr_fs fr,
                                            l\<lparr>fLeg_L_ProviderCode := Str (ks ! lc),
                                              fLeg_L_BaggageUnit := unit_of s,
                                              fLeg_L_BaggageWeight := weight_of s\<rparr>)))
                           else Inr (fr_fs fr, l))))
          else
            (case b_BkKY b of
               Some ks \<Rightarrow> Inr (idFareBK, l\<lparr>fLeg_L_ProviderCode := str_or_undefined (nth_opt ks lc)\<rparr>)
             | None \<Rightarrow> Inr (idFareBK, l\<lparr>fLeg_L_ProviderCode := fleg_ProviderCode fleg\<rparr>)))"

text \<open>
  Lines 125 to 195: the properties of the leg that are read from the raw leg, with the
  legacy table in its place. \<open>cOG\<close> and \<open>cDT\<close> are the country names looked up for
  the two airports.
\<close>

definition legFields ::
  "int \<Rightarrow> RawSegment \<Rightarrow> Lookups option \<Rightarrow> RawBound \<Rightarrow> nat \<Rightarrow> RawLeg
     \<Rightarrow> string option \<Rightarrow> string option \<Rightarrow> fLeg_L" where
  "legFields tza seg Res_L b lc fleg cOG cDT =
     (let l1 = empty_fLeg_L
            \<lparr>fLeg_L_airName := GetAirLineName Res_L (fleg_AC fleg),
             fLeg_L_org := fleg_OG fleg @ ''|''
                @ concat_str (GetAirportName Res_L (fleg_OG fleg)) @ ''|'' @ concat_str cOG,
             fLeg_L_dest := fleg_DT fleg @ ''|''
                @ concat_str (GetAirportName Res_L (fleg_DT fleg)) @ ''|'' @ concat_str cDT,
             fLeg_L_depDT := fleg_DDT fleg\<rparr>;
          l2 = legacyHandBaggage tza (seg_EID seg) (fleg_DDT fleg) l1;
          l3 = l2\<lparr>fLeg_L_HBU := fleg_HBU fleg, fLeg_L_HBW := fleg_HBW fleg\<rparr>;
          l4 = l3\<lparr>fLeg_L_fareCls := nth_opt (b_lFC b) lc, fLeg_L_LyOvr := fleg_LOV fleg\<rparr>
      in if lc > 0 then
           (case b_LLOV b of
              None \<Rightarrow> l4
            | Some ll \<Rightarrow> l4\<lparr>fLeg_L_LyOvr := val_or_undefined (nth_opt ll (lc - 1))\<rparr>)
         else l4)"

text \<open>
  Lines 124 to 228: one pass of the loop over the legs of a bound, for the leg key
  \<open>key\<close> at position \<open>lc\<close>. The raw leg is read first; an undefined leg throws
  at its first property read, \<^verbatim>\<open>fleg.AC\<close>.
\<close>

definition convertLeg ::
  "int \<Rightarrow> RawSegment \<Rightarrow> Lookups option \<Rightarrow> nat \<Rightarrow> RawBound \<Rightarrow> string \<Rightarrow> nat \<Rightarrow> string
     \<Rightarrow> error + (string \<times> fLeg_L)" where
  "convertLeg tza seg Res_L fareId b idFareBK lc key =
     (case GetFltDtl Res_L key of
        None \<Rightarrow> Inl TypeError
      | Some fleg \<Rightarrow>
          (case CountryName Res_L (fleg_OG fleg) of
             Inl e \<Rightarrow> Inl e
           | Inr cOG \<Rightarrow>
               (case CountryName Res_L (fleg_DT fleg) of
                  Inl e \<Rightarrow> Inl e
                | Inr cDT \<Rightarrow>
                    perFareBaggage seg fareId b fleg idFareBK lc
                      (perLegBaggage b lc (legFields tza seg Res_L b lc fleg cOG cDT)))))"

text \<open>
  Lines 123 to 229: the loop over the leg keys \<^verbatim>\<open>seg_.b[bc].FL\<close>, from position
  \<open>lc\<close> on; each converted leg is appended to \<^verbatim>\<open>Bnd_L.Legs\<close>.
\<close>

fun legsLoop ::
  "int \<Rightarrow> RawSegment \<Rightarrow> Lookups option \<Rightarrow> nat \<Rightarrow> RawBound \<Rightarrow> nat \<Rightarrow> string list
     \<Rightarrow> string \<times> fLeg_L list \<Rightarrow> error + (string \<times> fLeg_L list)" where
  "legsLoop tza seg Res_L fareId b lc [] st = Inr st"
| "legsLoop tza seg Res_L fareId b lc (key # keys) (idFareBK, Legs) =
     (case convertLeg tza seg Res_L fareId b idFareBK lc key of
        Inl e \<Rightarrow> Inl e
      | Inr (idFareBK', l) \<Rightarrow>
          legsLoop tza seg Res_L fareId b (Suc lc) keys (idFareBK', Legs @ [l]))"

subsection \<open>A bound\<close>

definition is_space :: "char \<Rightarrow> bool" where
  "is_space c = (c \<in> set [CHR '' '', CHR 0x09, CHR 0x0A, CHR 0x0B, CHR 0x0C, CHR 0x0D])"

definition hex_val :: "char \<Rightarrow> int option" where
  "hex_val c =
     map_of (zip ''0123456789abcdefABCDEF''
        [0, 1, 2, 3, 4, 5, 6, 7, 8, 9, 10, 11, 12, 13, 14, 15, 10, 11, 12, 13, 14, 15]) c"

text \<open>The value of the longest prefix of digits in the base, NaN when it is empty.\<close>

fun prefix_val :: "int \<Rightarrow> (char \<Rightarrow> int option) \<Rightarrow> int option \<Rightarrow> string \<Rightarrow> int option" where
  "prefix_val base dv acc [] = acc"
| "prefix_val base dv acc (c # cs) =
     (case dv c of
        None \<Rightarrow> acc
      | Some d \<Rightarrow>
          prefix_val base dv (Some ((case acc of None \<Rightarrow> 0 | Some a \<Rightarrow> a) * base + d)) cs)"

definition parseInt_str :: "string \<Rightarrow> int option" where
  "parseInt_str s =
     (let s1 = dropWhile is_space s;
          sign = (case s1 of c # _ \<Rightarrow> if c = CHR ''-'' then - 1 else 1 | [] \<Rightarrow> (1::int));
          s2 = (case s1 of c # r \<Rightarrow> if c = CHR ''-'' \<or> c = CHR ''+'' then r else s1 | [] \<Rightarrow> s1);
          v = (if take 2 s2 = ''0x'' \<or> take 2 s2 = ''0X''
               then prefix_val 16 hex_val None (drop 2 s2)
               else prefix_val 10 digit_val None s2)
      in map_option (\<lambda>n. sign * n) v)"

text \<open>
  \<^verbatim>\<open>parseInt(v)\<close>: the argument is written as a text first. An array is written as its
  elements joined by commas, and a comma ends the number, so that the first element
  decides; numbers are integers that are written in plain decimal.
\<close>

fun parseInt :: "jsval \<Rightarrow> int option" where
  "parseInt (Str s) = parseInt_str s"
| "parseInt (Num n) = Some n"
| "parseInt (Arr (x # xs)) = parseInt x"
| "parseInt v = None"

text \<open>
  \<^verbatim>\<open>seg_.lstFr[fareId].L_PF[0]\<close> inside a \<^verbatim>\<open>try\<close>: \<open>None\<close> when a read on the way
  throws.
\<close>

definition firstRow :: "RawSegment \<Rightarrow> nat \<Rightarrow> PassengerFareRow option" where
  "firstRow seg fareId =
     (case seg_lstFr seg of
        None \<Rightarrow> None
      | Some frs \<Rightarrow>
          (case nth_opt frs fareId of
             None \<Rightarrow> None
           | Some fr \<Rightarrow> (case fr_L_PF fr of None \<Rightarrow> None | Some rows \<Rightarrow> nth_opt rows 0)))"

text \<open>
  Lines 110 to 259: one pass of the loop over the bounds. The state is the segment
  (the pass writes \<^verbatim>\<open>seg_.l_HB\<close>) and the variables \<^verbatim>\<open>idFareBK\<close> and \<^verbatim>\<open>isHndBGG\<close>.
  The variable \<^verbatim>\<open>FL\<close> set in lines 117 to 122 is read nowhere and is left out; the loop
  over the legs reads \<^verbatim>\<open>seg_.b[bc].FL.length\<close>, which throws for an absent list.
\<close>

definition convertBound ::
  "int \<Rightarrow> Lookups option \<Rightarrow> nat \<Rightarrow> RawSegment \<times> string \<times> jsval \<Rightarrow> RawBound
     \<Rightarrow> error + ((RawSegment \<times> string \<times> jsval) \<times> Bnd_L)" where
  "convertBound tza Res_L fareId st b =
     (case st of (seg, idFareBK, isHndBGG) \<Rightarrow>
      (case b_FL b of
        None \<Rightarrow> Inl TypeError
      | Some keys \<Rightarrow>
          (case legsLoop tza seg Res_L fareId b 0 keys (idFareBK, []) of
             Inl e \<Rightarrow> Inl e
           | Inr (idFareBK1, Legs) \<Rightarrow>
               (let B0 = \<lparr>Bnd_L_bndDTL = b_BDT b, Bnd_L_dctCanPo = b_dctCanPo b,
                          Bnd_L_Legs = Legs,
                          Bnd_L_Refundable =
                            (if seg_RF seg = Some True then ''Refundable'' else ''Non-Refundable''),
                          Bnd_L_IsBaggageFare = Undefined, Bnd_L_JrnyTm = Undefined,
                          Bnd_L_ConnType = Undefined, Bnd_L_lstCanPo = Undefined\<rparr>;
                    sel =
                      (case seg_lstFr seg of
                         None \<Rightarrow> Inr (seg, isHndBGG, B0)
                       | Some frs \<Rightarrow>
                           if length frs > 0 then
                             (case nth_opt frs fareId of
                                None \<Rightarrow> Inl TypeError
                              | Some fr \<Rightarrow>
                                  (case fr_L_PF fr of
                                     None \<Rightarrow> Inl TypeError
                                   | Some rows \<Rightarrow>
                                       (case nth_opt rows 0 of
                                          None \<Rightarrow> Inl TypeError
                                        | Some row \<Rightarrow>
                                            Inr (seg\<lparr>seg_l_HB := fr_IsHB fr\<rparr>, fr_IsHB fr,
                                                 B0\<lparr>Bnd_L_Refundable :=
                                                       (if pf_RF row = ''True'' then ''Refundable''
                                                        else ''Non-Refundable''),
                                                    Bnd_L_IsBaggageFare := fr_IsHB fr\<rparr>))))
                           else Inr (seg, isHndBGG, B0))
                in case sel of
                     Inl e \<Rightarrow> Inl e
                   | Inr (seg1, isHndBGG1, B1) \<Rightarrow>
                       (let positive =
                              (case firstRow seg1 fareId of
                                 None \<Rightarrow> False
                               | Some row \<Rightarrow>
                                   (case parseInt (pf_BW row) of None \<Rightarrow> False | Some n \<Rightarrow> n > 0));
                            B2 = (if positive then B1\<lparr>Bnd_L_IsBaggageFare := Bool False\<rparr> else B1);
                            isHndBGG2 = (if positive then Bool False else isHndBGG1);
                            B3 = B2\<lparr>Bnd_L_JrnyTm := b_JyTm b, Bnd_L_ConnType := b_CT b\<rparr>;
                            B4 = (case b_dctCanPo b of
                                    None \<Rightarrow> B3
                                  | Some d \<Rightarrow>
                                      B3\<lparr>Bnd_L_lstCanPo := val_or_undefined (map_of d idFareBK1)\<rparr>)
                        in Inr ((seg1, idFareBK1, isHndBGG2), B4))))))"

text \<open>Lines 108 to 261: the loop over the bounds; each is appended to \<^verbatim>\<open>Seg_L.bonds\<close>.\<close>

fun boundsLoop ::
  "int \<Rightarrow> Lookups option \<Rightarrow> nat \<Rightarrow> RawBound list
     \<Rightarrow> (RawSegment \<times> string \<times> jsval) \<times> Bnd_L list
     \<Rightarrow> error + ((RawSegment \<times> string \<times> jsval) \<times> Bnd_L list)" where
  "boundsLoop tza Res_L fareId [] acc = Inr acc"
| "boundsLoop tza Res_L fareId (b # bs) (st, bonds) =
     (case convertBound tza Res_L fareId st b of
        Inl e \<Rightarrow> Inl e
      | Inr (st', B) \<Rightarrow> boundsLoop tza Res_L fareId bs (st', bonds @ [B]))"

subsection \<open>The selected fare\<close>

text \<open>
  Lines 263 to 318. With a non-empty \<^verbatim>\<open>lstFr\<close> the option at \<^verbatim>\<open>fareId\<close> is written to
  \<^verbatim>\<open>seg_.Fr\<close>; beyond the list it is undefined and the read \<^verbatim>\<open>seg_.lstFr[fareId].FId\<close>
  throws, as \<^verbatim>\<open>L_PF[0].INSAmtPP\<close> does without a first row. The parameters
  \<^verbatim>\<open>frArmy\<close> and \<^verbatim>\<open>frArmyRT\<close> are texts: what the code appends to them stays in its own
  variables and reaches neither the caller nor the record.
\<close>

definition selectFare :: "RawSegment \<Rightarrow> nat \<Rightarrow> Seg_L \<Rightarrow> error + (RawSegment \<times> Seg_L)" where
  "selectFare seg fareId S =
     (case seg_lstFr seg of
        None \<Rightarrow> Inr (seg, S)
      | Some frs \<Rightarrow>
          if length frs > 0 then
            (case nth_opt frs fareId of
               None \<Rightarrow> Inl TypeError
             | Some fr \<Rightarrow>
                 (case fr_L_PF fr of
                    None \<Rightarrow> Inl TypeError
                  | Some rows \<Rightarrow>
                      (case nth_opt rows 0 of
                         None \<Rightarrow> Inl TypeError
                       | Some row \<Rightarrow>
                           (let seg1 = seg\<lparr>seg_Fr := Some fr\<rparr>;
                                S1 = (if \<not> nullish (fr_CT_UPG fr)
                                      then S\<lparr>Seg_L_CT_UPG := fr_CT_UPG fr\<rparr> else S);
                                S2 = S1\<lparr>Seg_L_lstFr := seg_lstFr seg,
                                        Seg_L_selectedFare := fareId,
                                        Seg_L_ItineraryKey := fr_ItnanaryKey fr\<rparr>;
                                S3 = (if \<not> nullish (fr_CouponCodeList fr) then
                                        (let S' = S2\<lparr>Seg_L_CCL := fr_CouponCodeList fr,
                                                     Seg_L_IACL := fr_isAddCL fr,
                                                     Seg_L_CpnTxtS := fr_CpnTxtS fr,
                                                     Seg_L_CpnLstDis := fr_DA fr\<rparr>
                                         in if seg_I_RT seg = Some True
                                            then S'\<lparr>Seg_L_CpnLstDis := Num 0,
                                                   Seg_L_CCL := Str '''',
                                                   Seg_L_IACL := Bool False,
                                                   Seg_L_CpnTxtS := Str ''''\<rparr>
                                            else S')
                                      else if fr_CC fr \<noteq> Some ''''
                                      then S2\<lparr>Seg_L_DiscountAmount := fr_DA fr\<rparr>
                                      else S2);
                                S4 = (if \<not> nullish (fr_BDKEY fr)
                                      then S3\<lparr>Seg_L_brandFareKey := fr_BDKEY fr\<rparr> else S3)
                            in Inr (seg1, S4)))))
          else Inr (seg, S))"

subsection \<open>The prices\<close>

text \<open>The running totals of lines 319 to 339.\<close>

record Totals =
  adult :: int
  child :: int
  infant :: int
  adultT :: int
  childT :: int
  infantT :: int
  TotalTF :: int
  TotalTT :: int
  TotalMRKP :: int
  STF :: int
  TDS :: int
  ServiceFee :: int
  CashBack :: int
  Commission :: int
  TransactionFees :: int
  totalExSeatFare :: int

definition zeroTotals :: Totals where
  "zeroTotals =
     \<lparr>adult = 0, child = 0, infant = 0, adultT = 0, childT = 0, infantT = 0, TotalTF = 0,
      TotalTT = 0, TotalMRKP = 0, STF = 0, TDS = 0, ServiceFee = 0, CashBack = 0,
      Commission = 0, TransactionFees = 0, totalExSeatFare = 0\<rparr>"

text \<open>\<^verbatim>\<open>if (v != null) { acc += v * n; }\<close>\<close>

definition add_present :: "int \<Rightarrow> int option \<Rightarrow> int \<Rightarrow> int" where
  "add_present acc v n = (case v of None \<Rightarrow> acc | Some x \<Rightarrow> acc + x * n)"

text \<open>Lines 345 to 441: one pass of the loop over the rows \<^verbatim>\<open>seg_.Fr.L_PF\<close>.\<close>

definition rowStep :: "int \<Rightarrow> int \<Rightarrow> int \<Rightarrow> Totals \<Rightarrow> PassengerFareRow \<Rightarrow> Totals" where
  "rowStep NoAdt NoChd NoInf t0 r =
     (let t = (case pf_ESF r of
                 None \<Rightarrow> t0
               | Some e \<Rightarrow> t0\<lparr>totalExSeatFare := totalExSeatFare t0 + e\<rparr>)
      in if toUpperCase (pf_PT r) = ''ADULT'' then
           t\<lparr>adult := adult t + pf_BF r * NoAdt,
             TotalTF := TotalTF t + pf_TF r * NoAdt,
             TotalTT := TotalTT t + pf_TTX r * NoAdt,
             adultT := adultT t + pf_TTX r * NoAdt,
             TotalMRKP := TotalMRKP t + pf_MKP r * NoAdt,
             Commission := add_present (Commission t) (pf_COM r) NoAdt,
             CashBack := add_present (CashBack t) (pf_CB r) NoAdt,
             STF := STF t + 0,
             TDS := add_present (TDS t) (pf_TDS r) NoAdt,
             ServiceFee := add_present (ServiceFee t) (pf_SF r) NoAdt,
             TransactionFees := add_present (TransactionFees t) (pf_TA r) NoAdt\<rparr>
         else if toUpperCase (pf_PT r) = ''CHILD'' then
           t\<lparr>child := child t + pf_BF r * NoChd,
             TotalTF := TotalTF t + pf_TF r * NoChd,
             TotalTT := TotalTT t + pf_TTX r * NoChd,
             childT := childT t + pf_TTX r * NoChd,
             TotalMRKP := TotalMRKP t + pf_MKP r * NoChd,
             Commission := add_present (Commission t) (pf_COM r) NoChd,
             CashBack := add_present (CashBack t) (pf_CB r) NoChd,
             STF := STF t + 0,
             TDS := add_present (TDS t) (pf_TDS r) NoChd,
             ServiceFee := add_present (ServiceFee t) (pf_SF r) NoChd,
             TransactionFees := add_present (TransactionFees t) (pf_TA r) NoChd\<rparr>
         else if toUpperCase (pf_PT r) = ''INFANT'' then
           t\<lparr>infant := infant t + pf_BF r * NoInf,
             TotalTF := TotalTF t + pf_TF r * NoInf,
             TotalTT := TotalTT t + pf_TTX r * NoInf,
             infantT := infantT t + pf_TTX r * NoInf,
             TotalMRKP := TotalMRKP t + pf_MKP r * NoInf,
             Commission := add_present (Commission t) (pf_COM r) NoInf,
             CashBack := add_present (CashBack t) (pf_CB r) NoInf,
             STF := (if pf_COM r \<noteq> None then STF t + 0 else STF t),
             TDS := add_present (TDS t) (pf_TDS r) NoInf,
             ServiceFee := add_present (ServiceFee t) (pf_SF r) NoInf,
             TransactionFees := add_present (TransactionFees t) (pf_TA r) NoInf\<rparr>
         else t)"

text \<open>Lines 343 to 442: the loop, run when \<^verbatim>\<open>L_PF\<close> is present.\<close>

definition aggregateRows :: "int \<Rightarrow> int \<Rightarrow> int \<Rightarrow> RawFareOption \<Rightarrow> Totals" where
  "aggregateRows NoAdt NoChd NoInf Fr =
     (case fr_L_PF Fr of
        None \<Rightarrow> zeroTotals
      | Some rows \<Rightarrow> foldl (rowStep NoAdt NoChd NoInf) zeroTotals rows)"

text \<open>Lines 321 to 322 and 444 to 454: the fare record built from \<^verbatim>\<open>seg_.Fr\<close>.\<close>

definition assembledFare :: "RawFareOption \<Rightarrow> Fare_L" where
  "assembledFare Fr =
     \<lparr>Fare_L_lstPxPF = [], Fare_L_BscFr = fr_BF Fr, Fare_L_TtlFrWthMkp = fr_TFRMP Fr,
      Fare_L_TtlTxWthMkp = fr_TTXMP Fr, Fare_L_TTLFr = fr_TF Fr, Fare_L_lstTxDt = [],
      Fare_L_ttlDiscount = fr_TTDIS Fr, Fare_L_FareTypeID = fr_FRTYPID Fr,
      Fare_L_FareType = fr_FRTYP Fr, Fare_L_BrandKeys = fr_BDKEY Fr,
      Fare_L_Branded = fr_L_Bran Fr, Fare_L_FareRule = fr_FR Fr\<rparr>"

text \<open>
  Lines 476 to 480 and 508 to 512: \<^verbatim>\<open>Seg_L.bonds[0].lstCanPo\<close> throws when no bound was
  converted.
\<close>

definition cancellationPolicy :: "RawSegment \<Rightarrow> Seg_L \<Rightarrow> error + Seg_L" where
  "cancellationPolicy seg S =
     (case nth_opt (Seg_L_bonds S) 0 of
        None \<Rightarrow> Inl TypeError
      | Some B \<Rightarrow>
          Inr (S\<lparr>Seg_L_lstCanPo :=
                   (if \<not> nullish (Bnd_L_lstCanPo B) then Bnd_L_lstCanPo B else seg_LCP seg)\<rparr>))"

text \<open>
  Lines 320 to 514: the prices, from the rows of \<^verbatim>\<open>seg_.Fr\<close> when the segment has
  one, from the flat properties of the segment otherwise.
\<close>

definition priceSegment ::
  "RawSegment \<Rightarrow> int \<Rightarrow> int \<Rightarrow> int \<Rightarrow> Fare_L option \<Rightarrow> Seg_L \<Rightarrow> error + (RawSegment \<times> Seg_L)" where
  "priceSegment seg NoAdt NoChd NoInf FFare_L S =
     (case seg_Fr seg of
        Some Fr \<Rightarrow>
          (let S1 = S\<lparr>Seg_L_Fare := Some (assembledFare Fr)\<rparr>;
               S2 = (if fr_SID Fr \<noteq> Some '''' then S1\<lparr>Seg_L_searchId := fr_SID Fr\<rparr> else S1);
               t = aggregateRows NoAdt NoChd NoInf Fr;
               S3 = S2\<lparr>Seg_L_Fare := FFare_L\<rparr>;
               S4 = S3\<lparr>Seg_L_AdultPrice := Some (adult t),
                       Seg_L_ChildPrice := Some (child t),
                       Seg_L_InfantPrice := Some (infant t),
                       Seg_L_AdultPriceT := Some (adultT t),
                       Seg_L_ChildPriceT := Some (childT t),
                       Seg_L_InfantPriceT := Some (infantT t),
                       Seg_L_TotalTax := Some (TotalTT t),
                       Seg_L_TotalFare := Some (TotalTF t + TotalMRKP t),
                       Seg_L_ESF := Some (totalExSeatFare t),
                       Seg_L_MarkUP := Some (TotalMRKP t),
                       Seg_L_ttlDiscount := Some (TotalTF t + TotalMRKP t)\<rparr>
           in case cancellationPolicy seg S4 of
                Inl e \<Rightarrow> Inl e
              | Inr S5 \<Rightarrow>
                  Inr (seg\<lparr>seg_CBAMT := Some (CashBack t), seg_Comm := Some (Commission t),
                           seg_TDS := Some (TDS t), seg_SF := Some (ServiceFee t)\<rparr>, S5))
      | None \<Rightarrow>
          (let S1 = S\<lparr>Seg_L_AdultPrice := seg_AP seg\<rparr>;
               S2 = (if seg_APT seg \<noteq> None then S1\<lparr>Seg_L_AdultPriceT := seg_APT seg\<rparr> else S1);
               S3 = S2\<lparr>Seg_L_ChildPrice := seg_CP seg\<rparr>;
               S4 = (if seg_CPT seg \<noteq> None then S3\<lparr>Seg_L_ChildPriceT := seg_CPT seg\<rparr> else S3);
               S5 = S4\<lparr>Seg_L_InfantPrice := seg_IP seg\<rparr>;
               S6 = (if seg_IPT seg \<noteq> None then S5\<lparr>Seg_L_InfantPriceT := seg_IPT seg\<rparr> else S5);
               S7 = S6\<lparr>Seg_L_TotalTax := seg_TT seg, Seg_L_TotalFare := seg_TF seg,
                       Seg_L_ttlDiscount := seg_TTDIS seg\<rparr>
           in case cancellationPolicy seg S7 of
                Inl e \<Rightarrow> Inl e
              | Inr S8 \<Rightarrow> Inr (seg, S8)))"

subsection \<open>The record and the value returned\<close>

text \<open>Lines 59 to 79: the record before the bounds are converted.\<close>

definition initial_Seg_L :: "RawSegment \<Rightarrow> string \<Rightarrow> string \<Rightarrow> Seg_L" where
  "initial_Seg_L seg org des =
     \<lparr>Seg_L_searchId = seg_SID seg, Seg_L_ItineraryKey = seg_IK seg,
      Seg_L_SearchOrigin = org, Seg_L_SearchDestination = des,
      Seg_L_DiscountAmount = seg_DAMT seg, Seg_L_CpnTxtS = seg_CpnTxtS seg,
      Seg_L_CCL = seg_CCL seg, Seg_L_IACL = seg_IACL seg, Seg_L_CpnLstDis = Undefined,
      Seg_L_bonds = [], Seg_L_CT_UPG = Str '''', Seg_L_selectedFare = 0,
      Seg_L_lstFr = None, Seg_L_brandFareKey = Undefined, Seg_L_Fare = None,
      Seg_L_AdultPrice = None, Seg_L_ChildPrice = None, Seg_L_InfantPrice = None,
      Seg_L_AdultPriceT = None, Seg_L_ChildPriceT = None, Seg_L_InfantPriceT = None,
      Seg_L_TotalTax = None, Seg_L_TotalFare = None, Seg_L_ESF = None, Seg_L_MarkUP = None,
      Seg_L_ttlDiscount = None, Seg_L_lstCanPo = Undefined, Seg_L_IsHndBagg = Undefined,
      Seg_L_IsHndBaggTp = Undefined, Seg_L_IsRoundTrip = None, Seg_L_EngineId = 0,
      Seg_L_CouponCode = None, Seg_L_CBAMT = None, Seg_L_Comm = None, Seg_L_TDS = None,
      Seg_L_SF = None, Seg_L_IsFlightOutOfPolicy = Undefined\<rparr>"

text \<open>Lines 533 to 541: the coupon code shown.\<close>

definition couponCode :: "RawSegment \<Rightarrow> nat \<Rightarrow> error + string option" where
  "couponCode seg fareId =
     (case seg_lstFr seg of
        None \<Rightarrow> Inr (seg_CC seg)
      | Some frs \<Rightarrow>
          if length frs > 0 then
            (case nth_opt frs fareId of
               None \<Rightarrow> Inl TypeError
             | Some fr \<Rightarrow> if fr_TTDIS fr < fr_TF fr then Inr (fr_CC fr) else Inr (Some ''''))
          else Inr (seg_CC seg))"

text \<open>
  Lines 515 to 576: the last properties of the record. \<open>seg\<close> is the segment as the
  earlier stages left it: the amounts written to it in lines 481 to 484 are read back here.
\<close>

definition finishRecord ::
  "RawSegment \<Rightarrow> string \<Rightarrow> string \<Rightarrow> bool \<Rightarrow> nat \<Rightarrow> jsval \<Rightarrow> Seg_L \<Rightarrow> error + Seg_L" where
  "finishRecord seg org des isRT fareId isHndBGG S =
     (let S1 = S\<lparr>Seg_L_IsHndBagg := seg_IHB seg,
                 Seg_L_IsHndBaggTp :=
                   (if \<not> nullish (seg_Is_HBT seg) then seg_Is_HBT seg else isHndBGG),
                 Seg_L_IsRoundTrip := seg_I_RT seg,
                 Seg_L_EngineId := seg_EID seg\<rparr>
      in case couponCode seg fareId of
           Inl e \<Rightarrow> Inl e
         | Inr cc \<Rightarrow>
             (let S2 = S1\<lparr>Seg_L_CouponCode := cc\<rparr>;
                  S3 = (if Seg_L_CouponCode S2 = Some ''''
                        then S2\<lparr>Seg_L_DiscountAmount := Num 0\<rparr> else S2);
                  S4 = (if isRT \<and> False
                        then S3\<lparr>Seg_L_CouponCode := Some '''', Seg_L_CCL := Str '''',
                                Seg_L_IACL := Str '''', Seg_L_CpnTxtS := Str '''',
                                Seg_L_CpnLstDis := Num 0\<rparr>
                        else S3);
                  S5 = S4\<lparr>Seg_L_SearchOrigin := org, Seg_L_SearchDestination := des\<rparr>;
                  S6 = (if seg_CBAMT seg \<noteq> None then S5\<lparr>Seg_L_CBAMT := seg_CBAMT seg\<rparr> else S5);
                  S7 = (if seg_Comm seg \<noteq> None then S6\<lparr>Seg_L_Comm := seg_Comm seg\<rparr> else S6);
                  S8 = (if seg_TDS seg \<noteq> None then S7\<lparr>Seg_L_TDS := seg_TDS seg\<rparr> else S7);
                  S9 = (if seg_SF seg \<noteq> None then S8\<lparr>Seg_L_SF := seg_SF seg\<rparr> else S8)
              in Inr S9))"

text \<open>
  The read \<^verbatim>\<open>seg_.IsFlightOutOfPolicy\<close> of line 578. Reading a property of an object
  yields \<^verbatim>\<open>undefined\<close> when the object has no such property; the read throws only on
  \<^verbatim>\<open>null\<close> or \<^verbatim>\<open>undefined\<close>, and \<^verbatim>\<open>seg_\<close> is an object since line 60 read it.
\<close>

definition read_IsFlightOutOfPolicy :: "RawSegment \<Rightarrow> error + jsval" where
  "read_IsFlightOutOfPolicy seg = Inr (seg_IsFlightOutOfPolicy seg)"

text \<open>Lines 577 to 582: the \<^verbatim>\<open>try\<close> around that read, and the two returns.\<close>

definition finalReturn :: "RawSegment \<Rightarrow> Seg_L \<Rightarrow> returned" where
  "finalReturn seg S =
     (case read_IsFlightOutOfPolicy seg of
        Inl e \<Rightarrow> Partial S
      | Inr v \<Rightarrow> Serialized (S\<lparr>Seg_L_IsFlightOutOfPolicy := v\<rparr>))"

text \<open>
  The function. \<open>tza\<close> is the time zone of the host, which the dates of the legacy
  table read; the other arguments are the parameters of the source in their order. The
  result is \<open>Inl TypeError\<close> when the call throws, and otherwise the segment as the call
  leaves it with the value returned.
\<close>

definition ConvertSegFinal ::
  "int \<Rightarrow> RawSegment \<Rightarrow> Lookups option \<Rightarrow> string \<Rightarrow> string \<Rightarrow> string \<Rightarrow> string
     \<Rightarrow> int \<Rightarrow> int \<Rightarrow> int \<Rightarrow> Fare_L option \<Rightarrow> bool \<Rightarrow> nat
     \<Rightarrow> error + (RawSegment \<times> returned)" where
  "ConvertSegFinal tza seg Res_L org des frArmy frArmyRT NoAdt NoChd NoInf FFare_L isRT
       fareIdByFareSelected =
     (let fareId = fareIdByFareSelected;
          S0 = initial_Seg_L seg org des
      in case boundsLoop tza Res_L fareId (case seg_b seg of None \<Rightarrow> [] | Some bs \<Rightarrow> bs)
                ((seg, '''', Bool False), [])
         of
           Inl e \<Rightarrow> Inl e
         | Inr ((seg1, idFareBK, isHndBGG), bonds) \<Rightarrow>
             (case selectFare seg1 fareId (S0\<lparr>Seg_L_bonds := bonds\<rparr>) of
                Inl e \<Rightarrow> Inl e
              | Inr (seg2, S1) \<Rightarrow>
                  (case priceSegment seg2 NoAdt NoChd NoInf FFare_L S1 of
                     Inl e \<Rightarrow> Inl e
                   | Inr (seg3, S2) \<Rightarrow>
                       (case finishRecord seg3 org des isRT fareId isHndBGG S2 of
                          Inl e \<Rightarrow> Inl e
                        | Inr S3 \<Rightarrow> Inr (seg3, finalReturn seg3 S3)))))"

subsection \<open>Notions of the statements\<close>

text \<open>The record inside the value returned.\<close>

definition record_of :: "returned \<Rightarrow> Seg_L" where
  "record_of v = (case v of Serialized r \<Rightarrow> r | Partial r \<Rightarrow> r)"

text \<open>
  The segment once a bound has been converted: with a non-empty \<^verbatim>\<open>lstFr\<close>, line 238
  has written \<^verbatim>\<open>seg_.l_HB\<close>.
\<close>

definition l_HB_written :: "RawSegment \<Rightarrow> nat \<Rightarrow> RawSegment" where
  "l_HB_written seg fareId =
     (case seg_lstFr seg of
        None \<Rightarrow> seg
      | Some frs \<Rightarrow> if frs = [] then seg else seg\<lparr>seg_l_HB := fr_IsHB (frs ! fareId)\<rparr>)"

text \<open>
  The leg at position \<open>lc\<close> of bound \<open>bc\<close> in the record of a result; \<open>None\<close> when
  the call threw or the record has no such leg.
\<close>

definition outputLeg :: "error + (RawSegment \<times> returned) \<Rightarrow> nat \<Rightarrow> nat \<Rightarrow> fLeg_L option" where
  "outputLeg res bc lc =
     (case res of
        Inl e \<Rightarrow> None
      | Inr (s, v) \<Rightarrow>
          (case nth_opt (Seg_L_bonds (record_of v)) bc of
             None \<Rightarrow> None
           | Some B \<Rightarrow> nth_opt (Bnd_L_Legs B) lc))"

text \<open>The record of a result, and the segment it leaves; \<open>None\<close> when the call threw.\<close>

definition outputRecord :: "error + (RawSegment \<times> returned) \<Rightarrow> Seg_L option" where
  "outputRecord res = (case res of Inl e \<Rightarrow> None | Inr (s, v) \<Rightarrow> Some (record_of v))"

definition segmentAfter :: "error + (RawSegment \<times> returned) \<Rightarrow> RawSegment option" where
  "segmentAfter res = (case res of Inl e \<Rightarrow> None | Inr (s, v) \<Rightarrow> Some s)"



subsection \<open>The sums of the price claim\<close>




subsection \<open>The inputs on which the function returns\<close>







subsection \<open>The hand baggage of the per-leg list\<close>

text \<open>The entry of \<^verbatim>\<open>lstHBagg\<close> for the leg at \<open>lc\<close>, when the list is there and covers it.\<close>

definition perLegHand :: "RawBound \<Rightarrow> nat \<Rightarrow> string option" where
  "perLegHand b lc = (case b_lstHBagg b of None \<Rightarrow> None | Some hs \<Rightarrow> nth_opt hs lc)"

subsection \<open>The segment with a selected fare\<close>

text \<open>
  After lines 263 and 264 the segment has a fare in \<^verbatim>\<open>seg_.Fr\<close>: the option taken from
  a non-empty \<^verbatim>\<open>lstFr\<close>, or the one the segment came with.
\<close>

definition hasSelectedFare :: "RawSegment \<Rightarrow> bool" where
  "hasSelectedFare seg =
     ((case seg_lstFr seg of None \<Rightarrow> False | Some frs \<Rightarrow> frs \<noteq> []) \<or> seg_Fr seg \<noteq> None)"

subsection \<open>Inputs of the examples\<close>

definition ex_leg :: RawLeg where
  "ex_leg =
     \<lparr>fleg_AC = ''AI'', fleg_OG = ''DEL'', fleg_DT = ''BOM'', fleg_DDT = ''05-Jan-2020'',
      fleg_HBU = Str ''PC'', fleg_HBW = Num 1, fleg_LOV = Undefined,
      fleg_ProviderCode = Str ''P0''\<rparr>"

definition ex_Res_L :: "Lookups option" where
  "ex_Res_L =
     Some \<lparr>Res_L_dctFltDtl = Some [''K1'' \<mapsto> ex_leg],
           Res_L_C = Some [''AI'' \<mapsto> ''Air India''],
           Res_L_A = Some [''DEL'' \<mapsto> ''Delhi''],
           Res_L_Cnty = Some [''DEL'' \<mapsto> ''India'', ''BOM'' \<mapsto> ''India'']\<rparr>"

text \<open>A bound with one leg and with every baggage source: the per-leg list and the maps
  of the fare \<^verbatim>\<open>F1\<close>.\<close>

definition ex_bound :: RawBound where
  "ex_bound =
     \<lparr>b_BDT = Undefined, b_dctCanPo = None, b_FL = Some [''K1''], b_lFC = [''Y''],
      b_LLOV = None, b_lstBagg = [''KG|20''], b_lstHBagg = None,
      b_dctBKKY = Some [(''F1'', [''BK1''])], b_dctBagg = [(''F1'', [''KG|15''])],
      b_BkKY = None, b_JyTm = Undefined, b_CT = Undefined\<rparr>"

definition ex_row :: "string \<Rightarrow> int \<Rightarrow> PassengerFareRow" where
  "ex_row pt bf =
     \<lparr>pf_PT = pt, pf_BF = bf, pf_TF = bf + 20, pf_TTX = 20, pf_MKP = 5, pf_COM = Some 3,
      pf_CB = None, pf_TDS = None, pf_SF = Some 2, pf_TA = None, pf_ESF = None,
      pf_RF = ''True'', pf_BW = Str ''15''\<rparr>"

definition ex_fare :: RawFareOption where
  "ex_fare =
     \<lparr>fr_fs = ''F1'',
      fr_L_PF = Some [ex_row ''Adult'' 100, ex_row ''CHILD'' 60, ex_row ''Senior'' 80],
      fr_IsHB = Bool True, fr_CT_UPG = Undefined, fr_ItnanaryKey = Str ''IK1'',
      fr_CouponCodeList = Arr [Str ''FLY50''], fr_isAddCL = Bool True,
      fr_CpnTxtS = Str ''Save 50'', fr_DA = Num 50, fr_CC = Some ''FLY50'',
      fr_BDKEY = Undefined, fr_SID = Some '''', fr_BF = Num 160, fr_TFRMP = Num 210,
      fr_TTXMP = Num 40, fr_TF = 200, fr_TTDIS = 150, fr_FRTYPID = Num 1,
      fr_FRTYP = Str ''Saver'', fr_L_Bran = Bool False, fr_FR = Undefined\<rparr>"

text \<open>A segment of engine 1 with that bound, the fare \<^verbatim>\<open>F1\<close> listed and flat prices.\<close>

definition ex_seg :: RawSegment where
  "ex_seg =
     \<lparr>seg_SID = Some ''S1'', seg_IK = Undefined, seg_DAMT = Num 9, seg_CpnTxtS = Undefined,
      seg_CCL = Undefined, seg_IACL = Undefined, seg_b = Some [ex_bound], seg_EID = 1,
      seg_RF = None, seg_lstFr = Some [ex_fare], seg_l_HB = Undefined, seg_Fr = None,
      seg_I_RT = None, seg_AP = Some 100, seg_APT = None, seg_CP = Some 50, seg_CPT = None,
      seg_IP = None, seg_IPT = None, seg_TT = Some 20, seg_TF = Some 120,
      seg_TTDIS = None, seg_LCP = Undefined, seg_CBAMT = None, seg_Comm = None,
      seg_TDS = None, seg_SF = None, seg_IHB = Undefined, seg_Is_HBT = Undefined,
      seg_CC = Some ''FLAT10'', seg_IsFlightOutOfPolicy = Undefined\<rparr>"

text \<open>The fare record that the caller passes as \<^verbatim>\<open>FFare_L\<close> in the examples.\<close>

definition ex_FFare_L :: "Fare_L option" where
  "ex_FFare_L =
     Some \<lparr>Fare_L_lstPxPF = [], Fare_L_BscFr = Num 1, Fare_L_TtlFrWthMkp = Num 2,
           Fare_L_TtlTxWthMkp = Num 3, Fare_L_TTLFr = 4, Fare_L_lstTxDt = [],
           Fare_L_ttlDiscount = 5, Fare_L_FareTypeID = Num 6, Fare_L_FareType = Str ''Final'',
           Fare_L_BrandKeys = Undefined, Fare_L_Branded = Bool False,
           Fare_L_FareRule = Undefined\<rparr>"

text \<open>The call of the examples on a segment: two adults, one child, no infant, fare 0.\<close>

definition ex_call :: "RawSegment \<Rightarrow> Lookups option \<Rightarrow> error + (RawSegment \<times> returned)" where
  "ex_call seg Res_L =
     ConvertSegFinal 0 seg Res_L ''DEL'' ''BOM'' '''' '''' 2 1 0 ex_FFare_L False 0"

text \<open>The same segment with a bound that has no booking-key map.\<close>

definition ex_seg_plain :: RawSegment where
  "ex_seg_plain = ex_seg\<lparr>seg_b := Some [ex_bound\<lparr>b_dctBKKY := None\<rparr>]\<rparr>"

text \<open>That segment without the list of fares, and the same with a fare in \<^verbatim>\<open>Fr\<close>.\<close>

definition ex_seg_flat :: RawSegment where
  "ex_seg_flat = ex_seg_plain\<lparr>seg_lstFr := None\<rparr>"

definition ex_seg_carried :: RawSegment where
  "ex_seg_carried = ex_seg_plain\<lparr>seg_lstFr := None, seg_Fr := Some ex_fare\<rparr>"


text \<open>The segment of the examples flagged round trip, and with a fare that is not
  discounted.\<close>

definition ex_seg_rt :: RawSegment where
  "ex_seg_rt = ex_seg\<lparr>seg_I_RT := Some True\<rparr>"

definition ex_seg_full_price :: RawSegment where
  "ex_seg_full_price = ex_seg\<lparr>seg_lstFr := Some [ex_fare\<lparr>fr_TTDIS := 200\<rparr>]\<rparr>"

section \<open>Properties of the stages\<close>

subsection \<open>The loops, the frames of the stages and the inputs that can be read\<close>

lemma perFareBaggage_cong_seg:
  "seg_lstFr s = seg_lstFr s' \<Longrightarrow>
   perFareBaggage s f b fleg ida lc l = perFareBaggage s' f b fleg ida lc l"
  by (simp add: perFareBaggage_def cong: option.case_cong if_cong)

lemma legFields_cong_seg:
  "seg_EID s = seg_EID s' \<Longrightarrow>
   legFields tza s R b lc fleg c1 c2 = legFields tza s' R b lc fleg c1 c2"
  by (simp add: legFields_def)

lemma convertLeg_cong_seg:
  "seg_EID s = seg_EID s' \<Longrightarrow> seg_lstFr s = seg_lstFr s' \<Longrightarrow>
   convertLeg tza s R f b ida lc k = convertLeg tza s' R f b ida lc k"
  by (simp add: convertLeg_def perFareBaggage_cong_seg [of s s'] legFields_cong_seg [of s s']
      split: option.splits sum.splits)

lemma legsLoop_cong_seg:
  "seg_EID s = seg_EID s' \<Longrightarrow> seg_lstFr s = seg_lstFr s' \<Longrightarrow>
   legsLoop tza s R f b lc keys st = legsLoop tza s' R f b lc keys st"
proof (induction keys arbitrary: lc st)
  case Nil
  then show ?case by simp
next
  case (Cons k keys)
  obtain ida Legs where st: "st = (ida, Legs)" by (cases st)
  have "convertLeg tza s R f b ida lc k = convertLeg tza s' R f b ida lc k"
    using Cons.prems by (rule convertLeg_cong_seg)
  then show ?case
    using Cons.IH [OF Cons.prems] by (simp add: st split: sum.splits prod.splits)
qed

lemma legsLoop_Inr:
  "legsLoop tza s R f b lc keys (id0, Legs) = Inr (id', Legs') \<Longrightarrow>
   \<exists>new. Legs' = Legs @ new \<and> length new = length keys \<and>
     (\<forall>i<length keys. \<exists>ida idb.
        convertLeg tza s R f b ida (lc + i) (keys ! i) = Inr (idb, new ! i))"
proof (induction keys arbitrary: lc id0 Legs)
  case Nil
  then show ?case by simp
next
  case (Cons k keys)
  from Cons.prems obtain id1 l where
    leg: "convertLeg tza s R f b id0 lc k = Inr (id1, l)" and
    rest: "legsLoop tza s R f b (Suc lc) keys (id1, Legs @ [l]) = Inr (id', Legs')"
    by (auto split: sum.splits prod.splits)
  from Cons.IH [OF rest] obtain new where
    new: "Legs' = (Legs @ [l]) @ new" "length new = length keys"
      "\<forall>i<length keys. \<exists>ida idb.
         convertLeg tza s R f b ida (Suc lc + i) (keys ! i) = Inr (idb, new ! i)"
    by blast
  have "\<forall>i<length (k # keys). \<exists>ida idb.
          convertLeg tza s R f b ida (lc + i) ((k # keys) ! i) = Inr (idb, (l # new) ! i)"
  proof (intro allI impI)
    fix i assume i: "i < length (k # keys)"
    show "\<exists>ida idb. convertLeg tza s R f b ida (lc + i) ((k # keys) ! i) = Inr (idb, (l # new) ! i)"
    proof (cases i)
      case 0
      then show ?thesis using leg by auto
    next
      case (Suc j)
      then have "j < length keys" using i by simp
      then show ?thesis using new(3) Suc by auto
    qed
  qed
  then show ?case using new(1,2) by (intro exI [of _ "l # new"]) simp
qed

lemma l_HB_written_fields [simp]:
  "seg_EID (l_HB_written s f) = seg_EID s"
  "seg_lstFr (l_HB_written s f) = seg_lstFr s"
  "seg_Fr (l_HB_written s f) = seg_Fr s"
  "seg_I_RT (l_HB_written s f) = seg_I_RT s"
  by (simp_all add: l_HB_written_def split: option.splits)

lemma l_HB_written_idem [simp]: "l_HB_written (l_HB_written s f) f = l_HB_written s f"
  by (simp add: l_HB_written_def split: option.splits)

lemma convertBound_Inr:
  assumes "convertBound tza R f (s, id0, hb) b = Inr ((s', id', hb'), B)"
  shows "\<exists>keys id1. b_FL b = Some keys \<and>
           legsLoop tza s R f b 0 keys (id0, []) = Inr (id1, Bnd_L_Legs B) \<and>
           s' = l_HB_written s f"
  using assms
  by (auto simp: convertBound_def Let_def l_HB_written_def nth_opt_def
      split: option.splits sum.splits prod.splits if_splits)

lemma boundsLoop_Inr:
  "boundsLoop tza R f bs ((s, id0, hb), bonds) = Inr ((s', id', hb'), bonds') \<Longrightarrow>
   s = l_HB_written s0 f \<or> s = s0 \<Longrightarrow>
   \<exists>new. bonds' = bonds @ new \<and> length new = length bs \<and>
     (\<forall>i<length bs. \<exists>keys ida idb. b_FL (bs ! i) = Some keys \<and>
        legsLoop tza s0 R f (bs ! i) 0 keys (ida, []) = Inr (idb, Bnd_L_Legs (new ! i))) \<and>
     s' = (if bs = [] then s else l_HB_written s0 f)"
proof (induction bs arbitrary: s id0 hb bonds)
  case Nil
  then show ?case by simp
next
  case (Cons b bs)
  from Cons.prems(1) obtain s1 id1 hb1 B where
    bnd: "convertBound tza R f (s, id0, hb) b = Inr ((s1, id1, hb1), B)" and
    rest: "boundsLoop tza R f bs ((s1, id1, hb1), bonds @ [B]) = Inr ((s', id', hb'), bonds')"
    by (auto split: sum.splits prod.splits)
  from convertBound_Inr [OF bnd] obtain keys idb where
    keys: "b_FL b = Some keys"
      "legsLoop tza s R f b 0 keys (id0, []) = Inr (idb, Bnd_L_Legs B)"
      "s1 = l_HB_written s f"
    by blast
  have s1: "s1 = l_HB_written s0 f" using keys(3) Cons.prems(2) by auto
  have legs0: "legsLoop tza s0 R f b 0 keys (id0, []) = Inr (idb, Bnd_L_Legs B)"
    using keys(2) Cons.prems(2) legsLoop_cong_seg [of s s0] by auto
  from Cons.IH [OF rest] s1 obtain new where
    new: "bonds' = (bonds @ [B]) @ new" "length new = length bs"
      "\<forall>i<length bs. \<exists>keys ida idb. b_FL (bs ! i) = Some keys \<and>
         legsLoop tza s0 R f (bs ! i) 0 keys (ida, []) = Inr (idb, Bnd_L_Legs (new ! i))"
      "s' = (if bs = [] then s1 else l_HB_written s0 f)"
    by blast
  have "\<forall>i<length (b # bs). \<exists>keys ida idb. b_FL ((b # bs) ! i) = Some keys \<and>
         legsLoop tza s0 R f ((b # bs) ! i) 0 keys (ida, []) = Inr (idb, Bnd_L_Legs ((B # new) ! i))"
  proof (intro allI impI)
    fix i assume i: "i < length (b # bs)"
    show "\<exists>keys ida idb. b_FL ((b # bs) ! i) = Some keys \<and>
         legsLoop tza s0 R f ((b # bs) ! i) 0 keys (ida, []) = Inr (idb, Bnd_L_Legs ((B # new) ! i))"
    proof (cases i)
      case 0
      then show ?thesis using keys(1) legs0 by auto
    next
      case (Suc j)
      then have "j < length bs" using i by simp
      then show ?thesis using new(3) Suc by auto
    qed
  qed
  moreover have "s' = l_HB_written s0 f" using new(4) s1 by simp
  ultimately show ?case using new(1,2) by (intro exI [of _ "B # new"]) simp
qed

lemma ConvertSegFinal_Inr:
  assumes "ConvertSegFinal tza seg R org des fa frt a c i FF isRT fareId = Inr (seg', ret)"
  obtains seg1 idFareBK isHndBGG bonds seg2 S1 S2 S3 where
    "boundsLoop tza R fareId (case seg_b seg of None \<Rightarrow> [] | Some bs \<Rightarrow> bs)
        ((seg, '''', Bool False), []) = Inr ((seg1, idFareBK, isHndBGG), bonds)"
    "selectFare seg1 fareId ((initial_Seg_L seg org des)\<lparr>Seg_L_bonds := bonds\<rparr>) = Inr (seg2, S1)"
    "priceSegment seg2 a c i FF S1 = Inr (seg', S2)"
    "finishRecord seg' org des isRT fareId isHndBGG S2 = Inr S3"
    "ret = finalReturn seg' S3"
  using assms
  by (auto simp: ConvertSegFinal_def Let_def split: sum.splits prod.splits)

lemma selectFare_frame:
  assumes "selectFare s f S = Inr (s2, S1)"
  shows "S1 = S\<lparr>Seg_L_CT_UPG := Seg_L_CT_UPG S1, Seg_L_lstFr := Seg_L_lstFr S1,
                 Seg_L_selectedFare := Seg_L_selectedFare S1,
                 Seg_L_ItineraryKey := Seg_L_ItineraryKey S1,
                 Seg_L_CCL := Seg_L_CCL S1, Seg_L_IACL := Seg_L_IACL S1,
                 Seg_L_CpnTxtS := Seg_L_CpnTxtS S1, Seg_L_CpnLstDis := Seg_L_CpnLstDis S1,
                 Seg_L_DiscountAmount := Seg_L_DiscountAmount S1,
                 Seg_L_brandFareKey := Seg_L_brandFareKey S1\<rparr>"
  using assms
  by (auto simp: selectFare_def Let_def split: option.splits if_splits)

lemma selectFare_segment:
  assumes "selectFare s f S = Inr (s2, S1)"
  shows "s2 = (case seg_lstFr s of
                 None \<Rightarrow> s
               | Some frs \<Rightarrow> if frs = [] then s else s\<lparr>seg_Fr := Some (frs ! f)\<rparr>)"
  using assms
  by (auto simp: selectFare_def Let_def nth_opt_def split: option.splits if_splits)

lemma cancellationPolicy_frame:
  "cancellationPolicy s S = Inr S' \<Longrightarrow> S' = S\<lparr>Seg_L_lstCanPo := Seg_L_lstCanPo S'\<rparr>"
  by (auto simp: cancellationPolicy_def split: option.splits)

lemma priceSegment_frame:
  assumes "priceSegment s a c i FF S = Inr (s', S')"
  shows "S' = S\<lparr>Seg_L_Fare := Seg_L_Fare S', Seg_L_searchId := Seg_L_searchId S',
                 Seg_L_AdultPrice := Seg_L_AdultPrice S', Seg_L_ChildPrice := Seg_L_ChildPrice S',
                 Seg_L_InfantPrice := Seg_L_InfantPrice S',
                 Seg_L_AdultPriceT := Seg_L_AdultPriceT S',
                 Seg_L_ChildPriceT := Seg_L_ChildPriceT S',
                 Seg_L_InfantPriceT := Seg_L_InfantPriceT S',
                 Seg_L_TotalTax := Seg_L_TotalTax S', Seg_L_TotalFare := Seg_L_TotalFare S',
                 Seg_L_ESF := Seg_L_ESF S', Seg_L_MarkUP := Seg_L_MarkUP S',
                 Seg_L_ttlDiscount := Seg_L_ttlDiscount S',
                 Seg_L_lstCanPo := Seg_L_lstCanPo S'\<rparr>"
  using assms
  by (auto simp: priceSegment_def cancellationPolicy_def Let_def
      split: option.splits sum.splits if_splits)

lemma finishRecord_frame:
  assumes "finishRecord s org des isRT f hb S = Inr S'"
  shows "S' = S\<lparr>Seg_L_IsHndBagg := Seg_L_IsHndBagg S', Seg_L_IsHndBaggTp := Seg_L_IsHndBaggTp S',
                 Seg_L_IsRoundTrip := Seg_L_IsRoundTrip S', Seg_L_EngineId := Seg_L_EngineId S',
                 Seg_L_CouponCode := Seg_L_CouponCode S',
                 Seg_L_DiscountAmount := Seg_L_DiscountAmount S',
                 Seg_L_SearchOrigin := Seg_L_SearchOrigin S',
                 Seg_L_SearchDestination := Seg_L_SearchDestination S',
                 Seg_L_CBAMT := Seg_L_CBAMT S', Seg_L_Comm := Seg_L_Comm S',
                 Seg_L_TDS := Seg_L_TDS S', Seg_L_SF := Seg_L_SF S'\<rparr>"
  using assms
  by (auto simp: finishRecord_def Let_def split: sum.splits if_splits)

lemma finalReturn_Serialized:
  "finalReturn s S = Serialized (S\<lparr>Seg_L_IsFlightOutOfPolicy := seg_IsFlightOutOfPolicy s\<rparr>)"
  by (simp add: finalReturn_def read_IsFlightOutOfPolicy_def)













lemma priceSegment_returns: "(\<exists>r. priceSegment s a c i FF S = Inr r) = (Seg_L_bonds S \<noteq> [])"
  by (auto simp: priceSegment_def cancellationPolicy_def nth_opt_def Let_def
      split: option.splits)

lemma priceSegment_segment:
  assumes "priceSegment s a c i FF S = Inr (s', S')"
  shows "s' = (case seg_Fr s of
                 None \<Rightarrow> s
               | Some Fr \<Rightarrow>
                   s\<lparr>seg_CBAMT := Some (CashBack (aggregateRows a c i Fr)),
                     seg_Comm := Some (Commission (aggregateRows a c i Fr)),
                     seg_TDS := Some (TDS (aggregateRows a c i Fr)),
                     seg_SF := Some (ServiceFee (aggregateRows a c i Fr))\<rparr>)"
  using assms
  by (auto simp: priceSegment_def Let_def split: option.splits sum.splits)

lemma priceSegment_lstFr:
  "priceSegment s a c i FF S = Inr (s', S') \<Longrightarrow> seg_lstFr s' = seg_lstFr s"
  by (auto dest!: priceSegment_segment split: option.splits)



lemma selectFare_keeps:
  assumes "selectFare s f S = Inr (s2, S1)"
  shows "Seg_L_bonds S1 = Seg_L_bonds S" "Seg_L_Fare S1 = Seg_L_Fare S"
proof -
  note fr = selectFare_frame [OF assms]
  show "Seg_L_bonds S1 = Seg_L_bonds S" by (subst fr) simp
  show "Seg_L_Fare S1 = Seg_L_Fare S" by (subst fr) simp
qed

lemma priceSegment_keeps:
  assumes "priceSegment s a c i FF S = Inr (s', S')"
  shows "Seg_L_bonds S' = Seg_L_bonds S" "Seg_L_CCL S' = Seg_L_CCL S"
    "Seg_L_IACL S' = Seg_L_IACL S" "Seg_L_CpnTxtS S' = Seg_L_CpnTxtS S"
    "Seg_L_CpnLstDis S' = Seg_L_CpnLstDis S"
    "Seg_L_DiscountAmount S' = Seg_L_DiscountAmount S"
proof -
  note fr = priceSegment_frame [OF assms]
  show "Seg_L_bonds S' = Seg_L_bonds S" by (subst fr) simp
  show "Seg_L_CCL S' = Seg_L_CCL S" by (subst fr) simp
  show "Seg_L_IACL S' = Seg_L_IACL S" by (subst fr) simp
  show "Seg_L_CpnTxtS S' = Seg_L_CpnTxtS S" by (subst fr) simp
  show "Seg_L_CpnLstDis S' = Seg_L_CpnLstDis S" by (subst fr) simp
  show "Seg_L_DiscountAmount S' = Seg_L_DiscountAmount S" by (subst fr) simp
qed

lemma finishRecord_keeps:
  assumes "finishRecord s org des isRT f hb S = Inr S'"
  shows "Seg_L_bonds S' = Seg_L_bonds S" "Seg_L_CCL S' = Seg_L_CCL S"
    "Seg_L_IACL S' = Seg_L_IACL S" "Seg_L_CpnTxtS S' = Seg_L_CpnTxtS S"
    "Seg_L_CpnLstDis S' = Seg_L_CpnLstDis S" "Seg_L_Fare S' = Seg_L_Fare S"
    "Seg_L_AdultPrice S' = Seg_L_AdultPrice S" "Seg_L_ChildPrice S' = Seg_L_ChildPrice S"
    "Seg_L_InfantPrice S' = Seg_L_InfantPrice S" "Seg_L_AdultPriceT S' = Seg_L_AdultPriceT S"
    "Seg_L_ChildPriceT S' = Seg_L_ChildPriceT S" "Seg_L_InfantPriceT S' = Seg_L_InfantPriceT S"
    "Seg_L_TotalTax S' = Seg_L_TotalTax S" "Seg_L_TotalFare S' = Seg_L_TotalFare S"
    "Seg_L_ESF S' = Seg_L_ESF S" "Seg_L_MarkUP S' = Seg_L_MarkUP S"
    "Seg_L_ttlDiscount S' = Seg_L_ttlDiscount S"
proof -
  note fr = finishRecord_frame [OF assms]
  show "Seg_L_bonds S' = Seg_L_bonds S" by (subst fr) simp
  show "Seg_L_CCL S' = Seg_L_CCL S" by (subst fr) simp
  show "Seg_L_IACL S' = Seg_L_IACL S" by (subst fr) simp
  show "Seg_L_CpnTxtS S' = Seg_L_CpnTxtS S" by (subst fr) simp
  show "Seg_L_CpnLstDis S' = Seg_L_CpnLstDis S" by (subst fr) simp
  show "Seg_L_Fare S' = Seg_L_Fare S" by (subst fr) simp
  show "Seg_L_AdultPrice S' = Seg_L_AdultPrice S" by (subst fr) simp
  show "Seg_L_ChildPrice S' = Seg_L_ChildPrice S" by (subst fr) simp
  show "Seg_L_InfantPrice S' = Seg_L_InfantPrice S" by (subst fr) simp
  show "Seg_L_AdultPriceT S' = Seg_L_AdultPriceT S" by (subst fr) simp
  show "Seg_L_ChildPriceT S' = Seg_L_ChildPriceT S" by (subst fr) simp
  show "Seg_L_InfantPriceT S' = Seg_L_InfantPriceT S" by (subst fr) simp
  show "Seg_L_TotalTax S' = Seg_L_TotalTax S" by (subst fr) simp
  show "Seg_L_TotalFare S' = Seg_L_TotalFare S" by (subst fr) simp
  show "Seg_L_ESF S' = Seg_L_ESF S" by (subst fr) simp
  show "Seg_L_MarkUP S' = Seg_L_MarkUP S" by (subst fr) simp
  show "Seg_L_ttlDiscount S' = Seg_L_ttlDiscount S" by (subst fr) simp
qed

lemma record_of_finalReturn:
  "record_of (finalReturn s S) = S\<lparr>Seg_L_IsFlightOutOfPolicy := seg_IsFlightOutOfPolicy s\<rparr>"
  by (simp add: finalReturn_Serialized record_of_def)

text \<open>The stages of a call that returns, with the bounds of the segment named.\<close>

lemma ConvertSegFinal_stages:
  assumes "ConvertSegFinal tza seg R org des fa frt a c i FF isRT fareId = Inr (seg', ret)"
  obtains bs idFareBK isHndBGG bonds seg2 S1 S2 S3 where
    "bs = (case seg_b seg of None \<Rightarrow> [] | Some bs \<Rightarrow> bs)"
    "boundsLoop tza R fareId bs ((seg, '''', Bool False), [])
       = Inr ((l_HB_written seg fareId, idFareBK, isHndBGG), bonds)"
    "selectFare (l_HB_written seg fareId) fareId
       ((initial_Seg_L seg org des)\<lparr>Seg_L_bonds := bonds\<rparr>) = Inr (seg2, S1)"
    "priceSegment seg2 a c i FF S1 = Inr (seg', S2)"
    "finishRecord seg' org des isRT fareId isHndBGG S2 = Inr S3"
    "ret = finalReturn seg' S3"
    "Seg_L_bonds (record_of ret) = bonds"
    "length bonds = length bs"
    "bs \<noteq> []"
proof (rule ConvertSegFinal_Inr [OF assms])
  fix seg1 idFareBK isHndBGG bonds seg2 S1 S2 S3
  assume st: "boundsLoop tza R fareId (case seg_b seg of None \<Rightarrow> [] | Some bs \<Rightarrow> bs)
          ((seg, '''', Bool False), []) = Inr ((seg1, idFareBK, isHndBGG), bonds)"
      "selectFare seg1 fareId ((initial_Seg_L seg org des)\<lparr>Seg_L_bonds := bonds\<rparr>) = Inr (seg2, S1)"
      "priceSegment seg2 a c i FF S1 = Inr (seg', S2)"
      "finishRecord seg' org des isRT fareId isHndBGG S2 = Inr S3"
      "ret = finalReturn seg' S3"
  define bs where "bs = (case seg_b seg of None \<Rightarrow> [] | Some bs \<Rightarrow> bs)"
  have b1: "Seg_L_bonds S1 = bonds" using selectFare_keeps(1) [OF st(2)] by simp
  have b2: "Seg_L_bonds S2 = bonds" using priceSegment_keeps(1) [OF st(3)] b1 by simp
  have b3: "Seg_L_bonds S3 = bonds" using finishRecord_keeps(1) [OF st(4)] b2 by simp
  have b4: "Seg_L_bonds (record_of ret) = bonds"
    using b3 by (simp add: st(5) record_of_finalReturn)
  have loop0: "boundsLoop tza R fareId bs ((seg, '''', Bool False), [])
                 = Inr ((seg1, idFareBK, isHndBGG), bonds)"
    using st(1) by (simp add: bs_def)
  from boundsLoop_Inr [OF loop0, of seg]
  have loop: "length bonds = length bs" "seg1 = (if bs = [] then seg else l_HB_written seg fareId)"
    by auto
  have bne: "Seg_L_bonds S1 \<noteq> []"
    using priceSegment_returns [of seg2 a c i FF S1] st(3) by simp
  have ne: "bs \<noteq> []" using bne b1 loop(1) by auto
  then have s1: "seg1 = l_HB_written seg fareId" using loop(2) by simp
  show ?thesis
    using that [of bs idFareBK isHndBGG bonds seg2 S1 S2 S3] st b4 loop(1) ne loop0
    unfolding s1 bs_def by simp
qed

subsection \<open>The baggage of a leg\<close>

lemma legFields_hand:
  "fLeg_L_HBU (legFields tza s R b lc fleg c1 c2) = fleg_HBU fleg"
  "fLeg_L_HBW (legFields tza s R b lc fleg c1 c2) = fleg_HBW fleg"
  by (simp_all add: legFields_def Let_def split: option.splits)

lemma perLegBaggage_hand:
  "fLeg_L_HBU (perLegBaggage b lc l) =
     (case perLegHand b lc of None \<Rightarrow> fLeg_L_HBU l | Some h \<Rightarrow> unit_of h)"
  "fLeg_L_HBW (perLegBaggage b lc l) =
     (case perLegHand b lc of None \<Rightarrow> fLeg_L_HBW l | Some h \<Rightarrow> weight_of h)"
  by (simp_all add: perLegBaggage_def perLegHand_def nth_opt_def Let_def split: option.splits)

lemma perFareBaggage_hand:
  assumes "perFareBaggage s f b fleg ida lc l = Inr (idb, L)"
  shows "fLeg_L_HBU L = fLeg_L_HBU l" "fLeg_L_HBW L = fLeg_L_HBW l"
  using assms
  by (auto simp: perFareBaggage_def Let_def split: option.splits if_splits)

lemma perFareBaggage_checked:
  assumes "perFareBaggage s f b fleg ida lc l = Inr (idb, L)"
    and "b_dctBKKY b = Some d" "f < length d" "seg_lstFr s = Some frs" "f < length frs"
    and "map_of d (fr_fs (frs ! f)) = Some ks" "lc < length ks"
    and "map_of (b_dctBagg b) (fr_fs (frs ! f)) = Some bg"
  shows "lc < length bg \<and> fLeg_L_BaggageUnit L = unit_of (bg ! lc)
           \<and> fLeg_L_BaggageWeight L = weight_of (bg ! lc)
           \<and> fLeg_L_ProviderCode L = Str (ks ! lc)"
  using assms
  by (auto simp: perFareBaggage_def nth_opt_def Let_def split: if_splits)

lemma convertLeg_parts:
  assumes "convertLeg tza s R f b ida lc k = Inr (idb, L)" "GetFltDtl R k = Some fleg"
  obtains c1 c2 where
    "perFareBaggage s f b fleg ida lc (perLegBaggage b lc (legFields tza s R b lc fleg c1 c2))
       = Inr (idb, L)"
  using assms by (auto simp: convertLeg_def split: sum.splits)

lemma convertLeg_hand:
  assumes "convertLeg tza s R f b ida lc k = Inr (idb, L)" "GetFltDtl R k = Some fleg"
  shows "fLeg_L_HBU L = (case perLegHand b lc of None \<Rightarrow> fleg_HBU fleg | Some h \<Rightarrow> unit_of h)"
    and "fLeg_L_HBW L = (case perLegHand b lc of None \<Rightarrow> fleg_HBW fleg | Some h \<Rightarrow> weight_of h)"
proof -
  from convertLeg_parts [OF assms] obtain c1 c2 where
    p: "perFareBaggage s f b fleg ida lc (perLegBaggage b lc (legFields tza s R b lc fleg c1 c2))
          = Inr (idb, L)"
    by blast
  show "fLeg_L_HBU L = (case perLegHand b lc of None \<Rightarrow> fleg_HBU fleg | Some h \<Rightarrow> unit_of h)"
    using perFareBaggage_hand(1) [OF p] by (simp add: perLegBaggage_hand legFields_hand cong: option.case_cong)
  show "fLeg_L_HBW L = (case perLegHand b lc of None \<Rightarrow> fleg_HBW fleg | Some h \<Rightarrow> weight_of h)"
    using perFareBaggage_hand(2) [OF p] by (simp add: perLegBaggage_hand legFields_hand cong: option.case_cong)
qed

lemma convertLeg_checked:
  assumes "convertLeg tza s R f b ida lc k = Inr (idb, L)"
    and "b_dctBKKY b = Some d" "f < length d" "seg_lstFr s = Some frs" "f < length frs"
    and "map_of d (fr_fs (frs ! f)) = Some ks" "lc < length ks"
    and "map_of (b_dctBagg b) (fr_fs (frs ! f)) = Some bg"
  shows "lc < length bg \<and> fLeg_L_BaggageUnit L = unit_of (bg ! lc)
           \<and> fLeg_L_BaggageWeight L = weight_of (bg ! lc)
           \<and> fLeg_L_ProviderCode L = Str (ks ! lc)"
proof -
  from assms(1) obtain fleg where "GetFltDtl R k = Some fleg"
    by (auto simp: convertLeg_def split: option.splits)
  from convertLeg_parts [OF assms(1) this] obtain c1 c2 where
    "perFareBaggage s f b fleg ida lc (perLegBaggage b lc (legFields tza s R b lc fleg c1 c2))
       = Inr (idb, L)"
    by blast
  from perFareBaggage_checked [OF this assms(2-8)] show ?thesis .
qed

subsection \<open>The legs of the record\<close>

lemma outputRecord_Some:
  assumes "outputRecord res = Some r"
  obtains s v where "res = Inr (s, v)" "r = record_of v"
  using assms by (auto simp: outputRecord_def split: sum.splits prod.splits)

lemma outputLeg_Some:
  assumes "outputLeg res bc lc = Some L"
  obtains s v where "res = Inr (s, v)" "bc < length (Seg_L_bonds (record_of v))"
    "lc < length (Bnd_L_Legs (Seg_L_bonds (record_of v) ! bc))"
    "L = Bnd_L_Legs (Seg_L_bonds (record_of v) ! bc) ! lc"
  using assms
  by (auto simp: outputLeg_def nth_opt_def split: sum.splits prod.splits option.splits if_splits)

text \<open>A leg of the record is the result of converting the leg key at its position.\<close>

lemma outputLeg_convertLeg:
  assumes out: "outputLeg (ConvertSegFinal tza seg R org des fa frt a c i FF isRT fareId) bc lc = Some L"
    and bs: "seg_b seg = Some bs" and keys: "b_FL (bs ! bc) = Some keys"
  shows "\<exists>ida idb. convertLeg tza seg R fareId (bs ! bc) ida lc (keys ! lc) = Inr (idb, L)"
proof (rule outputLeg_Some [OF out])
  fix s v
  assume v: "ConvertSegFinal tza seg R org des fa frt a c i FF isRT fareId = Inr (s, v)"
      "bc < length (Seg_L_bonds (record_of v))"
      "lc < length (Bnd_L_Legs (Seg_L_bonds (record_of v) ! bc))"
      "L = Bnd_L_Legs (Seg_L_bonds (record_of v) ! bc) ! lc"
  show ?thesis
  proof (rule ConvertSegFinal_stages [OF v(1)])
    fix bs' idFareBK isHndBGG bonds seg2 S1 S2 S3
    assume st: "bs' = (case seg_b seg of None \<Rightarrow> [] | Some bs \<Rightarrow> bs)"
      "boundsLoop tza R fareId bs' ((seg, '''', Bool False), [])
         = Inr ((l_HB_written seg fareId, idFareBK, isHndBGG), bonds)"
      "Seg_L_bonds (record_of v) = bonds" "length bonds = length bs'"
    have bs': "bs' = bs" using st(1) bs by simp
    have bc: "bc < length bs" using v(2) st(3,4) bs' by simp
    from boundsLoop_Inr [OF st(2) [unfolded bs'], of seg]
    obtain keys' ida idb where
      k: "b_FL (bs ! bc) = Some keys'"
        "legsLoop tza seg R fareId (bs ! bc) 0 keys' (ida, []) = Inr (idb, Bnd_L_Legs (bonds ! bc))"
      using bc by auto
    have keys': "keys' = keys" using k(1) keys by simp
    from legsLoop_Inr [OF k(2) [unfolded keys']] obtain new where
      new: "Bnd_L_Legs (bonds ! bc) = [] @ new" "length new = length keys"
        "\<forall>i<length keys. \<exists>ida idb.
           convertLeg tza seg R fareId (bs ! bc) ida (0 + i) (keys ! i) = Inr (idb, new ! i)"
      by blast
    have lc: "lc < length keys" using v(3) st(3) new(1,2) by simp
    show ?thesis using new(1) new(3) [rule_format, OF lc] st(3) v(4) by simp
  qed
qed

subsection \<open>The totals of the rows and the properties each stage sets\<close>






lemma priceSegment_aggregated:
  assumes "priceSegment s a c i FF S = Inr (s', S')" "seg_Fr s = Some Fr"
  shows "Seg_L_AdultPrice S' = Some (adult (aggregateRows a c i Fr))"
    "Seg_L_ChildPrice S' = Some (child (aggregateRows a c i Fr))"
    "Seg_L_InfantPrice S' = Some (infant (aggregateRows a c i Fr))"
    "Seg_L_Fare S' = FF"
    "seg_CBAMT s' = Some (CashBack (aggregateRows a c i Fr))"
    "seg_Comm s' = Some (Commission (aggregateRows a c i Fr))"
    "seg_TDS s' = Some (TDS (aggregateRows a c i Fr))"
    "seg_SF s' = Some (ServiceFee (aggregateRows a c i Fr))"
  using assms
  by (auto simp: priceSegment_def cancellationPolicy_def Let_def split: option.splits)

lemma priceSegment_flat:
  assumes "priceSegment s a c i FF S = Inr (s', S')" "seg_Fr s = None"
  shows "s' = s"
    "Seg_L_AdultPrice S' = seg_AP s" "Seg_L_ChildPrice S' = seg_CP s"
    "Seg_L_InfantPrice S' = seg_IP s" "Seg_L_TotalTax S' = seg_TT s"
    "Seg_L_TotalFare S' = seg_TF s" "Seg_L_ttlDiscount S' = seg_TTDIS s"
    "Seg_L_AdultPriceT S' = (if seg_APT s \<noteq> None then seg_APT s else Seg_L_AdultPriceT S)"
    "Seg_L_ChildPriceT S' = (if seg_CPT s \<noteq> None then seg_CPT s else Seg_L_ChildPriceT S)"
    "Seg_L_InfantPriceT S' = (if seg_IPT s \<noteq> None then seg_IPT s else Seg_L_InfantPriceT S)"
    "Seg_L_ESF S' = Seg_L_ESF S" "Seg_L_MarkUP S' = Seg_L_MarkUP S"
    "Seg_L_Fare S' = Seg_L_Fare S"
  using assms
  by (auto simp: priceSegment_def cancellationPolicy_def Let_def split: option.splits)

lemma finishRecord_amounts:
  assumes "finishRecord s org des isRT f hb S = Inr S'"
  shows "Seg_L_CBAMT S' = (if seg_CBAMT s \<noteq> None then seg_CBAMT s else Seg_L_CBAMT S)"
    "Seg_L_Comm S' = (if seg_Comm s \<noteq> None then seg_Comm s else Seg_L_Comm S)"
    "Seg_L_TDS S' = (if seg_TDS s \<noteq> None then seg_TDS s else Seg_L_TDS S)"
    "Seg_L_SF S' = (if seg_SF s \<noteq> None then seg_SF s else Seg_L_SF S)"
  using assms
  by (auto simp: finishRecord_def Let_def split: sum.splits)

lemma finishRecord_coupon:
  assumes "finishRecord s org des isRT f hb S = Inr S'"
  shows "couponCode s f = Inr (Seg_L_CouponCode S')"
    "Seg_L_DiscountAmount S' =
       (if Seg_L_CouponCode S' = Some '''' then Num 0 else Seg_L_DiscountAmount S)"
  using assms
  by (auto simp: finishRecord_def Let_def split: sum.splits)

lemma selectFare_listed:
  assumes "selectFare s f S = Inr (s2, S1)" "seg_lstFr s = Some frs" "frs \<noteq> []"
  obtains rows where "f < length frs" "fr_L_PF (frs ! f) = Some rows" "rows \<noteq> []"
    "s2 = s\<lparr>seg_Fr := Some (frs ! f)\<rparr>"
  using assms
  by (auto simp: selectFare_def nth_opt_def Let_def split: option.splits if_splits)

lemma selectFare_unlisted:
  assumes "selectFare s f S = Inr (s2, S1)" "seg_lstFr s = None \<or> seg_lstFr s = Some []"
  shows "s2 = s" "S1 = S"
  using assms by (auto simp: selectFare_def)

lemma selectFare_coupon:
  assumes "selectFare s f S = Inr (s2, S1)" "seg_lstFr s = Some frs" "frs \<noteq> []"
    "\<not> nullish (fr_CouponCodeList (frs ! f))"
  shows "Seg_L_CCL S1 = (if seg_I_RT s = Some True then Str '''' else fr_CouponCodeList (frs ! f))"
    "Seg_L_IACL S1 = (if seg_I_RT s = Some True then Bool False else fr_isAddCL (frs ! f))"
    "Seg_L_CpnTxtS S1 = (if seg_I_RT s = Some True then Str '''' else fr_CpnTxtS (frs ! f))"
    "Seg_L_CpnLstDis S1 = (if seg_I_RT s = Some True then Num 0 else fr_DA (frs ! f))"
  using assms
  by (auto simp: selectFare_def nth_opt_def Let_def split: option.splits if_splits)

text \<open>A call that returns on a segment with a non-empty list of fares.\<close>

lemma ConvertSegFinal_listed:
  assumes ret: "ConvertSegFinal tza seg R org des fa frt a c i FF isRT fareId = Inr (seg', ret)"
    and frs: "seg_lstFr seg = Some frs" "frs \<noteq> []"
  obtains rows S0 S1 S2 S3 hb where
    "fareId < length frs" "fr_L_PF (frs ! fareId) = Some rows" "rows \<noteq> []"
    "selectFare (l_HB_written seg fareId) fareId S0
       = Inr ((l_HB_written seg fareId)\<lparr>seg_Fr := Some (frs ! fareId)\<rparr>, S1)"
    "priceSegment ((l_HB_written seg fareId)\<lparr>seg_Fr := Some (frs ! fareId)\<rparr>) a c i FF S1
       = Inr (seg', S2)"
    "finishRecord seg' org des isRT fareId hb S2 = Inr S3"
    "record_of ret = S3\<lparr>Seg_L_IsFlightOutOfPolicy := seg_IsFlightOutOfPolicy seg'\<rparr>"
    "seg_lstFr seg' = Some frs"
    "Seg_L_DiscountAmount S0 = seg_DAMT seg"
proof (rule ConvertSegFinal_stages [OF ret])
  fix bs idFareBK isHndBGG bonds seg2 S1 S2 S3
  assume st: "selectFare (l_HB_written seg fareId) fareId
         ((initial_Seg_L seg org des)\<lparr>Seg_L_bonds := bonds\<rparr>) = Inr (seg2, S1)"
      "priceSegment seg2 a c i FF S1 = Inr (seg', S2)"
      "finishRecord seg' org des isRT fareId isHndBGG S2 = Inr S3"
      "ret = finalReturn seg' S3"
  have l1: "seg_lstFr (l_HB_written seg fareId) = Some frs" using frs(1) by simp
  show ?thesis
  proof (rule selectFare_listed [OF st(1) l1 frs(2)])
    fix rows
    assume rows: "fareId < length frs" "fr_L_PF (frs ! fareId) = Some rows" "rows \<noteq> []"
      "seg2 = (l_HB_written seg fareId)\<lparr>seg_Fr := Some (frs ! fareId)\<rparr>"
    have l3: "seg_lstFr seg' = Some frs"
      using priceSegment_lstFr [OF st(2)] rows(4) l1 by simp
    have d: "Seg_L_DiscountAmount ((initial_Seg_L seg org des)\<lparr>Seg_L_bonds := bonds\<rparr>)
               = seg_DAMT seg"
      by (simp add: initial_Seg_L_def)
    show ?thesis
      using that [of rows "(initial_Seg_L seg org des)\<lparr>Seg_L_bonds := bonds\<rparr>" S1 S2 isHndBGG S3]
        rows(1-3) st(1-3) l3 d
      unfolding rows(4) st(4) record_of_finalReturn by simp
  qed
qed

subsection \<open>Calls without a list of fares\<close>

lemma error_is_TypeError: "(e::error) = TypeError"
  by (cases e) simp

text \<open>A call that does not throw, as the pair of its results.\<close>

lemma returns_pair:
  assumes "res \<noteq> Inl TypeError"
  shows "res = Inr (fst (projr res), snd (projr res))"
  using assms error_is_TypeError by (cases res) auto

lemma l_HB_written_unlisted:
  "seg_lstFr s = None \<or> seg_lstFr s = Some [] \<Longrightarrow> l_HB_written s f = s"
  by (auto simp: l_HB_written_def)

text \<open>A call that returns on a segment without a list of fares, or with an empty one.\<close>

lemma ConvertSegFinal_unlisted:
  assumes ret: "ConvertSegFinal tza seg R org des fa frt a c i FF isRT fareId = Inr (seg', ret)"
    and frs: "seg_lstFr seg = None \<or> seg_lstFr seg = Some []"
  obtains bonds S2 S3 hb where
    "priceSegment seg a c i FF ((initial_Seg_L seg org des)\<lparr>Seg_L_bonds := bonds\<rparr>)
       = Inr (seg', S2)"
    "finishRecord seg' org des isRT fareId hb S2 = Inr S3"
    "record_of ret = S3\<lparr>Seg_L_IsFlightOutOfPolicy := seg_IsFlightOutOfPolicy seg'\<rparr>"
proof (rule ConvertSegFinal_stages [OF ret])
  fix bs idFareBK isHndBGG bonds seg2 S1 S2 S3
  assume st: "selectFare (l_HB_written seg fareId) fareId
         ((initial_Seg_L seg org des)\<lparr>Seg_L_bonds := bonds\<rparr>) = Inr (seg2, S1)"
      "priceSegment seg2 a c i FF S1 = Inr (seg', S2)"
      "finishRecord seg' org des isRT fareId isHndBGG S2 = Inr S3"
      "ret = finalReturn seg' S3"
  have s1: "l_HB_written seg fareId = seg" using l_HB_written_unlisted [OF frs] by simp
  from selectFare_unlisted [OF st(1)] frs s1
  have s2: "seg2 = seg" "S1 = (initial_Seg_L seg org des)\<lparr>Seg_L_bonds := bonds\<rparr>"
    by auto
  show ?thesis
    using that [of bonds S2 isHndBGG S3] st(2,3)
    unfolding s2 st(4) record_of_finalReturn by simp
qed

lemma hasSelectedFare_cases:
  obtains (listed) frs where "seg_lstFr seg = Some frs" "frs \<noteq> []"
  | (carried) Fr where "seg_lstFr seg = None \<or> seg_lstFr seg = Some []" "seg_Fr seg = Some Fr"
  | (none) "seg_lstFr seg = None \<or> seg_lstFr seg = Some []" "seg_Fr seg = None"
  by (cases "seg_lstFr seg"; cases "seg_Fr seg"; auto)

subsection \<open>The segment after the call\<close>

text \<open>The segment a call leaves: only six of its properties can differ from the input.\<close>

lemma segment_after:
  assumes ret: "ConvertSegFinal tza seg R org des fa frt a c i FF isRT fareId = Inr (seg', ret)"
  shows "seg' =
     (let s2 = (case seg_lstFr seg of
                  None \<Rightarrow> seg
                | Some frs \<Rightarrow>
                    if frs = [] then seg
                    else seg\<lparr>seg_l_HB := fr_IsHB (frs ! fareId), seg_Fr := Some (frs ! fareId)\<rparr>)
      in case seg_Fr s2 of
           None \<Rightarrow> s2
         | Some Fr \<Rightarrow>
             s2\<lparr>seg_CBAMT := Some (CashBack (aggregateRows a c i Fr)),
                seg_Comm := Some (Commission (aggregateRows a c i Fr)),
                seg_TDS := Some (TDS (aggregateRows a c i Fr)),
                seg_SF := Some (ServiceFee (aggregateRows a c i Fr))\<rparr>)"
proof (rule ConvertSegFinal_stages [OF ret])
  fix bs idFareBK isHndBGG bonds seg2 S1 S2 S3
  assume st: "selectFare (l_HB_written seg fareId) fareId
         ((initial_Seg_L seg org des)\<lparr>Seg_L_bonds := bonds\<rparr>) = Inr (seg2, S1)"
      "priceSegment seg2 a c i FF S1 = Inr (seg', S2)"
  have s2: "seg2 = (case seg_lstFr seg of
                  None \<Rightarrow> seg
                | Some frs \<Rightarrow>
                    if frs = [] then seg
                    else seg\<lparr>seg_l_HB := fr_IsHB (frs ! fareId), seg_Fr := Some (frs ! fareId)\<rparr>)"
    using selectFare_segment [OF st(1)]
    by (auto simp: l_HB_written_def split: option.splits)
  show ?thesis
    using priceSegment_segment [OF st(2)] unfolding s2 [symmetric] by (simp add: Let_def)
qed

lemma segment_frame:
  assumes "ConvertSegFinal tza seg R org des fa frt a c i FF isRT fareId = Inr (seg', ret)"
  shows "seg' = seg\<lparr>seg_l_HB := seg_l_HB seg', seg_Fr := seg_Fr seg',
                    seg_CBAMT := seg_CBAMT seg', seg_Comm := seg_Comm seg',
                    seg_TDS := seg_TDS seg', seg_SF := seg_SF seg'\<rparr>"
  by (subst (1 2 3 4 5 6 7) segment_after [OF assms])
     (simp add: Let_def split: option.splits)

subsection \<open>When the call throws\<close>





section \<open>The claims\<close>

subsection \<open>C1: the legacy hand-baggage table\<close>

text \<open>
  C1 (amended). For every leg of every bound of a call that returns, when the per-leg
  hand-baggage list of the bound does not cover the leg, the hand-baggage unit and weight
  of the converted leg are the raw leg's own \<^verbatim>\<open>HBU\<close> and \<^verbatim>\<open>HBW\<close>, for every engine
  id and every departure date: lines 171 and 172 overwrite what the legacy table of lines
  133 to 170 has assigned.
\<close>

theorem C1_hand_baggage_is_the_raw_legs:
  assumes "outputLeg (ConvertSegFinal tza seg Res_L org des frArmy frArmyRT NoAdt NoChd NoInf
             FFare_L isRT fareId) bc lc = Some L"
    and "seg_b seg = Some bs" and "b_FL (bs ! bc) = Some keys"
    and "GetFltDtl Res_L (keys ! lc) = Some fleg"
    and "perLegHand (bs ! bc) lc = None"
  shows "fLeg_L_HBU L = fleg_HBU fleg \<and> fLeg_L_HBW L = fleg_HBW fleg"
proof -
  from outputLeg_convertLeg [OF assms(1-3)] obtain ida idb where
    "convertLeg tza seg Res_L fareId (bs ! bc) ida lc (keys ! lc) = Inr (idb, L)"
    by blast
  from convertLeg_hand [OF this assms(4)] show ?thesis by (simp add: assms(5))
qed

theorem C1_witness:
  "outputLeg (ex_call ex_seg_plain ex_Res_L) 0 0 \<noteq> None
   \<and> seg_b ex_seg_plain = Some [ex_bound\<lparr>b_dctBKKY := None\<rparr>]
   \<and> GetFltDtl ex_Res_L ''K1'' = Some ex_leg
   \<and> perLegHand (ex_bound\<lparr>b_dctBKKY := None\<rparr>) 0 = None
   \<and> fLeg_L_HBU (the (outputLeg (ex_call ex_seg_plain ex_Res_L) 0 0)) = Str ''PC''
   \<and> fLeg_L_HBW (the (outputLeg (ex_call ex_seg_plain ex_Res_L) 0 0)) = Num 1"
proof -
  have h0: "outputLeg (ex_call ex_seg_plain ex_Res_L) 0 0 \<noteq> None" by code_simp
  then have h1: "outputLeg (ConvertSegFinal 0 ex_seg_plain ex_Res_L ''DEL'' ''BOM'' '''' '''' 2 1 0
                   ex_FFare_L False 0) 0 0 = Some (the (outputLeg (ex_call ex_seg_plain ex_Res_L) 0 0))"
    by (simp add: ex_call_def)
  have h2: "seg_b ex_seg_plain = Some [ex_bound\<lparr>b_dctBKKY := None\<rparr>]"
    by (simp add: ex_seg_plain_def)
  have h3: "b_FL ([ex_bound\<lparr>b_dctBKKY := None\<rparr>] ! 0) = Some [''K1'']"
    by (simp add: ex_bound_def)
  have h4: "GetFltDtl ex_Res_L ([''K1''] ! 0) = Some ex_leg"
    by (simp add: GetFltDtl_def ex_Res_L_def)
  have h5: "perLegHand ([ex_bound\<lparr>b_dctBKKY := None\<rparr>] ! 0) 0 = None"
    by (simp add: perLegHand_def ex_bound_def)
  show ?thesis
    using C1_hand_baggage_is_the_raw_legs [OF h1 h2 h3 h4 h5] h0 h2 h4 h5
    by (simp add: ex_leg_def)
qed

theorem C1_counterexample:
  "seg_EID ex_seg_plain = 1
   \<and> fleg_DDT ex_leg = ''05-Jan-2020''
   \<and> fLeg_L_HBU (legacyHandBaggage 0 1 ''05-Jan-2020'' empty_fLeg_L) = Str ''KG''
   \<and> fLeg_L_HBW (legacyHandBaggage 0 1 ''05-Jan-2020'' empty_fLeg_L) = Num 7
   \<and> outputLeg (ex_call ex_seg_plain ex_Res_L) 0 0 \<noteq> None
   \<and> fLeg_L_HBU (the (outputLeg (ex_call ex_seg_plain ex_Res_L) 0 0)) \<noteq> Str ''KG''
   \<and> fLeg_L_HBW (the (outputLeg (ex_call ex_seg_plain ex_Res_L) 0 0)) \<noteq> Num 7
   \<and> fLeg_L_HBU (the (outputLeg (ex_call ex_seg_plain ex_Res_L) 0 0)) = Str ''PC''
   \<and> fLeg_L_HBW (the (outputLeg (ex_call ex_seg_plain ex_Res_L) 0 0)) = Num 1
   \<and> fLeg_L_HBW (the (outputLeg (ex_call (ex_seg_plain\<lparr>seg_EID := 0\<rparr>) ex_Res_L) 0 0)) = Num 1
   \<and> fLeg_L_HBW (the (outputLeg (ex_call (ex_seg_plain\<lparr>seg_EID := 31\<rparr>) ex_Res_L) 0 0)) = Num 1"
  by code_simp

subsection \<open>C2: baggage precedence\<close>

text \<open>
  C2 (amended). For a leg at which every baggage source is populated (the booking-key map
  of the bound has more than \<open>fareId\<close> entries and its entry for the selected fare covers
  the leg, the per-leg list and the engine id and date are there), the checked-baggage
  unit and weight of the converted leg are the two pieces of the text
  \<^verbatim>\<open>dctBagg[fs][lc]\<close> of the selected fare. The hand-baggage unit and weight are not
  read from any map of the fare: they are the two pieces of \<^verbatim>\<open>lstHBagg[lc]\<close> when the
  per-leg hand-baggage list covers the leg, and the raw leg's own \<^verbatim>\<open>HBU\<close> and
  \<^verbatim>\<open>HBW\<close> otherwise; the legacy table reaches neither pair.
\<close>

theorem C2_baggage_of_the_selected_fare:
  assumes "outputLeg (ConvertSegFinal tza seg Res_L org des frArmy frArmyRT NoAdt NoChd NoInf
             FFare_L isRT fareId) bc lc = Some L"
    and "seg_b seg = Some bs" and "b_FL (bs ! bc) = Some keys"
    and "GetFltDtl Res_L (keys ! lc) = Some fleg"
    and "b_dctBKKY (bs ! bc) = Some d" and "fareId < length d"
    and "seg_lstFr seg = Some frs" and "fareId < length frs"
    and "map_of d (fr_fs (frs ! fareId)) = Some ks" and "lc < length ks"
    and "map_of (b_dctBagg (bs ! bc)) (fr_fs (frs ! fareId)) = Some bg"
  shows "fLeg_L_BaggageUnit L = unit_of (bg ! lc)
         \<and> fLeg_L_BaggageWeight L = weight_of (bg ! lc)
         \<and> fLeg_L_HBU L =
             (case perLegHand (bs ! bc) lc of None \<Rightarrow> fleg_HBU fleg | Some h \<Rightarrow> unit_of h)
         \<and> fLeg_L_HBW L =
             (case perLegHand (bs ! bc) lc of None \<Rightarrow> fleg_HBW fleg | Some h \<Rightarrow> weight_of h)"
proof -
  from outputLeg_convertLeg [OF assms(1-3)] obtain ida idb where
    leg: "convertLeg tza seg Res_L fareId (bs ! bc) ida lc (keys ! lc) = Inr (idb, L)"
    by blast
  show ?thesis
    using convertLeg_checked [OF leg assms(5-11)] convertLeg_hand [OF leg assms(4)]
    by simp
qed

theorem C2_witness:
  "outputLeg (ex_call ex_seg ex_Res_L) 0 0 \<noteq> None
   \<and> seg_b ex_seg = Some [ex_bound] \<and> b_FL ex_bound = Some [''K1'']
   \<and> GetFltDtl ex_Res_L ''K1'' = Some ex_leg
   \<and> b_dctBKKY ex_bound = Some [(''F1'', [''BK1''])]
   \<and> seg_lstFr ex_seg = Some [ex_fare] \<and> fr_fs ex_fare = ''F1''
   \<and> b_dctBagg ex_bound = [(''F1'', [''KG|15''])]
   \<and> b_lstBagg ex_bound = [''KG|20'']
   \<and> fLeg_L_BaggageUnit (the (outputLeg (ex_call ex_seg ex_Res_L) 0 0)) = Str ''KG''
   \<and> fLeg_L_BaggageWeight (the (outputLeg (ex_call ex_seg ex_Res_L) 0 0)) = Str ''15''
   \<and> fLeg_L_HBU (the (outputLeg (ex_call ex_seg ex_Res_L) 0 0)) = Str ''PC''
   \<and> fLeg_L_HBW (the (outputLeg (ex_call ex_seg ex_Res_L) 0 0)) = Num 1"
proof -
  have h0: "outputLeg (ex_call ex_seg ex_Res_L) 0 0 \<noteq> None" by code_simp
  then have h1: "outputLeg (ConvertSegFinal 0 ex_seg ex_Res_L ''DEL'' ''BOM'' '''' '''' 2 1 0
                   ex_FFare_L False 0) 0 0 = Some (the (outputLeg (ex_call ex_seg ex_Res_L) 0 0))"
    by (simp add: ex_call_def)
  have h2: "seg_b ex_seg = Some [ex_bound]" by (simp add: ex_seg_def)
  have h3: "b_FL ([ex_bound] ! 0) = Some [''K1'']" by (simp add: ex_bound_def)
  have h4: "GetFltDtl ex_Res_L ([''K1''] ! 0) = Some ex_leg"
    by (simp add: GetFltDtl_def ex_Res_L_def)
  have h5: "b_dctBKKY ([ex_bound] ! 0) = Some [(''F1'', [''BK1''])]" by (simp add: ex_bound_def)
  have h6: "0 < length [(''F1'', [''BK1''])]" by simp
  have h7: "seg_lstFr ex_seg = Some [ex_fare]" by (simp add: ex_seg_def)
  have h8: "0 < length [ex_fare]" by simp
  have h9: "map_of [(''F1'', [''BK1''])] (fr_fs ([ex_fare] ! 0)) = Some [''BK1'']"
    by (simp add: ex_fare_def)
  have h10: "0 < length [''BK1'']" by simp
  have h11: "map_of (b_dctBagg ([ex_bound] ! 0)) (fr_fs ([ex_fare] ! 0)) = Some [''KG|15'']"
    by (simp add: ex_fare_def ex_bound_def)
  have u: "unit_of ''KG|15'' = Str ''KG''" "weight_of ''KG|15'' = Str ''15''"
    by (simp_all add: unit_of_def weight_of_def nth_opt_def str_or_undefined_def)
  have p: "perLegHand ex_bound 0 = None" by (simp add: perLegHand_def ex_bound_def)
  show ?thesis
    using C2_baggage_of_the_selected_fare [OF h1 h2 h3 h4 h5 h6 h7 h8 h9 h10 h11]
      h0 h2 h3 h4 h5 h7 u p
    by (simp add: ex_leg_def ex_bound_def ex_fare_def)
qed

theorem C2_counterexample:
  "b_dctBKKY ex_bound = Some [(''F1'', [''BK1''])]
   \<and> b_dctBagg ex_bound = [(''F1'', [''KG|15''])]
   \<and> b_lstBagg ex_bound = [''KG|20'']
   \<and> seg_EID ex_seg = 1 \<and> fleg_DDT ex_leg = ''05-Jan-2020''
   \<and> outputLeg (ex_call ex_seg ex_Res_L) 0 0 \<noteq> None
   \<and> fLeg_L_BaggageUnit (the (outputLeg (ex_call ex_seg ex_Res_L) 0 0)) = unit_of ''KG|15''
   \<and> fLeg_L_HBU (the (outputLeg (ex_call ex_seg ex_Res_L) 0 0)) \<noteq> unit_of ''KG|15''
   \<and> fLeg_L_HBW (the (outputLeg (ex_call ex_seg ex_Res_L) 0 0)) \<noteq> weight_of ''KG|15''
   \<and> fLeg_L_HBU (the (outputLeg (ex_call ex_seg ex_Res_L) 0 0)) = fleg_HBU ex_leg
   \<and> fLeg_L_HBW (the (outputLeg (ex_call ex_seg ex_Res_L) 0 0)) = fleg_HBW ex_leg"
  by code_simp

subsection \<open>C3: prices per passenger type\<close>



subsection \<open>C4: the flat prices\<close>

text \<open>
  C4 (amended). For every call that returns on a segment whose list of fares is absent or
  empty and which carries no fare in \<^verbatim>\<open>Fr\<close>, the prices of the record are the flat
  properties of the segment one for one: adult, child and infant price and their
  \<^verbatim>\<open>T\<close> variants, total tax, total fare and total discount; no row is aggregated (the
  extra-seat fee and the markup stay unset, the four amounts are the segment's own), the
  fare of the record is null, and the segment is left as it was.
\<close>

theorem C4_flat_prices_without_a_fare:
  assumes "ConvertSegFinal tza seg Res_L org des frArmy frArmyRT NoAdt NoChd NoInf FFare_L isRT
             fareId = Inr (seg', v)"
    and "seg_lstFr seg = None \<or> seg_lstFr seg = Some []" and "seg_Fr seg = None"
  shows "Seg_L_AdultPrice (record_of v) = seg_AP seg
       \<and> Seg_L_ChildPrice (record_of v) = seg_CP seg
       \<and> Seg_L_InfantPrice (record_of v) = seg_IP seg
       \<and> Seg_L_AdultPriceT (record_of v) = seg_APT seg
       \<and> Seg_L_ChildPriceT (record_of v) = seg_CPT seg
       \<and> Seg_L_InfantPriceT (record_of v) = seg_IPT seg
       \<and> Seg_L_TotalTax (record_of v) = seg_TT seg
       \<and> Seg_L_TotalFare (record_of v) = seg_TF seg
       \<and> Seg_L_ttlDiscount (record_of v) = seg_TTDIS seg
       \<and> Seg_L_ESF (record_of v) = None \<and> Seg_L_MarkUP (record_of v) = None
       \<and> Seg_L_CBAMT (record_of v) = seg_CBAMT seg \<and> Seg_L_Comm (record_of v) = seg_Comm seg
       \<and> Seg_L_TDS (record_of v) = seg_TDS seg \<and> Seg_L_SF (record_of v) = seg_SF seg
       \<and> Seg_L_Fare (record_of v) = None
       \<and> seg' = seg"
proof (rule ConvertSegFinal_unlisted [OF assms(1,2)])
  fix bonds S2 S3 hb
  assume st: "priceSegment seg NoAdt NoChd NoInf FFare_L
           ((initial_Seg_L seg org des)\<lparr>Seg_L_bonds := bonds\<rparr>) = Inr (seg', S2)"
      "finishRecord seg' org des isRT fareId hb S2 = Inr S3"
      "record_of v = S3\<lparr>Seg_L_IsFlightOutOfPolicy := seg_IsFlightOutOfPolicy seg'\<rparr>"
  note p = priceSegment_flat [OF st(1) assms(3)]
  note k = finishRecord_keeps [OF st(2)]
  note m = finishRecord_amounts [OF st(2)]
  have prices: "Seg_L_AdultPrice S3 = seg_AP seg" "Seg_L_ChildPrice S3 = seg_CP seg"
    "Seg_L_InfantPrice S3 = seg_IP seg" "Seg_L_TotalTax S3 = seg_TT seg"
    "Seg_L_TotalFare S3 = seg_TF seg" "Seg_L_ttlDiscount S3 = seg_TTDIS seg"
    using p k by simp_all
  have priceTs: "Seg_L_AdultPriceT S3 = seg_APT seg" "Seg_L_ChildPriceT S3 = seg_CPT seg"
    "Seg_L_InfantPriceT S3 = seg_IPT seg"
    using p(8-10) k(10-12) by (simp_all add: initial_Seg_L_def)
  have unset: "Seg_L_ESF S3 = None" "Seg_L_MarkUP S3 = None" "Seg_L_Fare S3 = None"
    using p(11-13) k(6,15,16) by (simp_all add: initial_Seg_L_def)
  have amounts: "Seg_L_CBAMT S3 = seg_CBAMT seg" "Seg_L_Comm S3 = seg_Comm seg"
    "Seg_L_TDS S3 = seg_TDS seg" "Seg_L_SF S3 = seg_SF seg"
  proof -
    note fr = priceSegment_frame [OF st(1)]
    have i: "Seg_L_CBAMT S2 = None" "Seg_L_Comm S2 = None" "Seg_L_TDS S2 = None"
      "Seg_L_SF S2 = None"
      by (subst fr, simp add: initial_Seg_L_def)+
    show "Seg_L_CBAMT S3 = seg_CBAMT seg" using m(1) i(1) p(1) by auto
    show "Seg_L_Comm S3 = seg_Comm seg" using m(2) i(2) p(1) by auto
    show "Seg_L_TDS S3 = seg_TDS seg" using m(3) i(3) p(1) by auto
    show "Seg_L_SF S3 = seg_SF seg" using m(4) i(4) p(1) by auto
  qed
  show ?thesis using prices priceTs unset amounts p(1) by (simp add: st(3))
qed

theorem C4_witness:
  "ex_call ex_seg_flat ex_Res_L \<noteq> Inl TypeError
   \<and> seg_lstFr ex_seg_flat = None \<and> seg_Fr ex_seg_flat = None
   \<and> seg_AP ex_seg_flat = Some 100 \<and> seg_CP ex_seg_flat = Some 50
   \<and> seg_TT ex_seg_flat = Some 20 \<and> seg_TF ex_seg_flat = Some 120
   \<and> Seg_L_AdultPrice (record_of (snd (projr (ex_call ex_seg_flat ex_Res_L)))) = Some 100
   \<and> Seg_L_ChildPrice (record_of (snd (projr (ex_call ex_seg_flat ex_Res_L)))) = Some 50
   \<and> Seg_L_TotalTax (record_of (snd (projr (ex_call ex_seg_flat ex_Res_L)))) = Some 20
   \<and> Seg_L_TotalFare (record_of (snd (projr (ex_call ex_seg_flat ex_Res_L)))) = Some 120
   \<and> fst (projr (ex_call ex_seg_flat ex_Res_L)) = ex_seg_flat"
proof -
  have h0: "ex_call ex_seg_flat ex_Res_L \<noteq> Inl TypeError" by code_simp
  then have h1: "ConvertSegFinal 0 ex_seg_flat ex_Res_L ''DEL'' ''BOM'' '''' '''' 2 1 0
                   ex_FFare_L False 0
                 = Inr (fst (projr (ex_call ex_seg_flat ex_Res_L)),
                        snd (projr (ex_call ex_seg_flat ex_Res_L)))"
    using returns_pair [of "ex_call ex_seg_flat ex_Res_L"] by (simp add: ex_call_def)
  have h2: "seg_lstFr ex_seg_flat = None \<or> seg_lstFr ex_seg_flat = Some []"
    by (simp add: ex_seg_flat_def)
  have h3: "seg_Fr ex_seg_flat = None"
    by (simp add: ex_seg_flat_def ex_seg_plain_def ex_seg_def)
  have f: "seg_AP ex_seg_flat = Some 100" "seg_CP ex_seg_flat = Some 50"
    "seg_TT ex_seg_flat = Some 20" "seg_TF ex_seg_flat = Some 120"
    "seg_lstFr ex_seg_flat = None"
    by (simp_all add: ex_seg_flat_def ex_seg_plain_def ex_seg_def)
  show ?thesis
    using C4_flat_prices_without_a_fare [OF h1 h2 h3] h0 h3 f by simp
qed

theorem C4_counterexample:
  "seg_lstFr ex_seg_carried = None
   \<and> seg_AP ex_seg_carried = Some 100
   \<and> outputRecord (ex_call ex_seg_carried ex_Res_L) \<noteq> None
   \<and> Seg_L_AdultPrice (the (outputRecord (ex_call ex_seg_carried ex_Res_L))) = Some 200
   \<and> Seg_L_AdultPrice (the (outputRecord (ex_call ex_seg_carried ex_Res_L)))
       \<noteq> seg_AP ex_seg_carried
   \<and> Seg_L_TotalFare (the (outputRecord (ex_call ex_seg_carried ex_Res_L)))
       \<noteq> seg_TF ex_seg_carried"
  by code_simp

subsection \<open>C5: the value returned\<close>




subsection \<open>C6: throwing\<close>




subsection \<open>C7: writes to the segment\<close>

text \<open>
  C7 (amended). The call writes to the segment it is given. When it returns on a segment
  with a non-empty list of fares, it has stored the selected fare in \<^verbatim>\<open>Fr\<close>, that
  fare's \<^verbatim>\<open>IsHB\<close> in \<^verbatim>\<open>l_HB\<close>, and the cashback, commission, TDS and service-fee
  totals of the rows in \<^verbatim>\<open>CBAMT\<close>, \<^verbatim>\<open>Comm\<close>, \<^verbatim>\<open>TDS\<close> and \<^verbatim>\<open>SF\<close>. No other
  property of the segment is changed, and a segment with no fare in the list and none in
  \<^verbatim>\<open>Fr\<close> is left as it was.
\<close>

theorem C7_segment_written_in_six_properties:
  assumes "ConvertSegFinal tza seg Res_L org des frArmy frArmyRT NoAdt NoChd NoInf FFare_L isRT
             fareId = Inr (seg', v)"
  shows "seg' = seg\<lparr>seg_l_HB := seg_l_HB seg', seg_Fr := seg_Fr seg',
                    seg_CBAMT := seg_CBAMT seg', seg_Comm := seg_Comm seg',
                    seg_TDS := seg_TDS seg', seg_SF := seg_SF seg'\<rparr>
       \<and> (\<forall>frs. seg_lstFr seg = Some frs \<and> frs \<noteq> [] \<longrightarrow>
             seg_Fr seg' = Some (frs ! fareId)
           \<and> seg_l_HB seg' = fr_IsHB (frs ! fareId)
           \<and> seg_CBAMT seg' = Some (CashBack (aggregateRows NoAdt NoChd NoInf (frs ! fareId)))
           \<and> seg_Comm seg' = Some (Commission (aggregateRows NoAdt NoChd NoInf (frs ! fareId)))
           \<and> seg_TDS seg' = Some (TDS (aggregateRows NoAdt NoChd NoInf (frs ! fareId)))
           \<and> seg_SF seg' = Some (ServiceFee (aggregateRows NoAdt NoChd NoInf (frs ! fareId))))
       \<and> (\<not> hasSelectedFare seg \<longrightarrow> seg' = seg)"
proof (intro conjI allI impI)
  show "seg' = seg\<lparr>seg_l_HB := seg_l_HB seg', seg_Fr := seg_Fr seg',
                    seg_CBAMT := seg_CBAMT seg', seg_Comm := seg_Comm seg',
                    seg_TDS := seg_TDS seg', seg_SF := seg_SF seg'\<rparr>"
    using segment_frame [OF assms] .
next
  fix frs assume frs: "seg_lstFr seg = Some frs \<and> frs \<noteq> []"
  note a = segment_after [OF assms]
  show "seg_Fr seg' = Some (frs ! fareId)" by (subst a) (simp add: frs Let_def)
  show "seg_l_HB seg' = fr_IsHB (frs ! fareId)" by (subst a) (simp add: frs Let_def)
  show "seg_CBAMT seg' = Some (CashBack (aggregateRows NoAdt NoChd NoInf (frs ! fareId)))"
    by (subst a) (simp add: frs Let_def)
  show "seg_Comm seg' = Some (Commission (aggregateRows NoAdt NoChd NoInf (frs ! fareId)))"
    by (subst a) (simp add: frs Let_def)
  show "seg_TDS seg' = Some (TDS (aggregateRows NoAdt NoChd NoInf (frs ! fareId)))"
    by (subst a) (simp add: frs Let_def)
  show "seg_SF seg' = Some (ServiceFee (aggregateRows NoAdt NoChd NoInf (frs ! fareId)))"
    by (subst a) (simp add: frs Let_def)
next
  assume "\<not> hasSelectedFare seg"
  then show "seg' = seg"
    by (subst segment_after [OF assms])
       (auto simp: hasSelectedFare_def Let_def split: option.splits)
qed

theorem C7_witness:
  "ex_call ex_seg ex_Res_L \<noteq> Inl TypeError
   \<and> seg_lstFr ex_seg = Some [ex_fare] \<and> seg_Fr ex_seg = None \<and> seg_Comm ex_seg = None
   \<and> seg_Fr (fst (projr (ex_call ex_seg ex_Res_L))) = Some ex_fare
   \<and> seg_l_HB (fst (projr (ex_call ex_seg ex_Res_L))) = Bool True
   \<and> seg_Comm (fst (projr (ex_call ex_seg ex_Res_L))) = Some 9
   \<and> seg_SF (fst (projr (ex_call ex_seg ex_Res_L))) = Some 6
   \<and> ex_call ex_seg_flat ex_Res_L \<noteq> Inl TypeError
   \<and> \<not> hasSelectedFare ex_seg_flat
   \<and> fst (projr (ex_call ex_seg_flat ex_Res_L)) = ex_seg_flat"
proof -
  have h0: "ex_call ex_seg ex_Res_L \<noteq> Inl TypeError" by code_simp
  have h1: "ConvertSegFinal 0 ex_seg ex_Res_L ''DEL'' ''BOM'' '''' '''' 2 1 0 ex_FFare_L False 0
              = Inr (fst (projr (ex_call ex_seg ex_Res_L)), snd (projr (ex_call ex_seg ex_Res_L)))"
    using returns_pair [OF h0] by (simp add: ex_call_def)
  have g0: "ex_call ex_seg_flat ex_Res_L \<noteq> Inl TypeError" by code_simp
  have g1: "ConvertSegFinal 0 ex_seg_flat ex_Res_L ''DEL'' ''BOM'' '''' '''' 2 1 0 ex_FFare_L
              False 0
              = Inr (fst (projr (ex_call ex_seg_flat ex_Res_L)),
                     snd (projr (ex_call ex_seg_flat ex_Res_L)))"
    using returns_pair [OF g0] by (simp add: ex_call_def)
  have f: "seg_lstFr ex_seg = Some [ex_fare]" "seg_Fr ex_seg = None" "seg_Comm ex_seg = None"
    by (simp_all add: ex_seg_def)
  have n: "\<not> hasSelectedFare ex_seg_flat"
    by (simp add: hasSelectedFare_def ex_seg_flat_def ex_seg_plain_def ex_seg_def)
  have t: "Commission (aggregateRows 2 1 0 ex_fare) = 9" "ServiceFee (aggregateRows 2 1 0 ex_fare) = 6"
    by code_simp+
  have i: "fr_IsHB ex_fare = Bool True" by (simp add: ex_fare_def)
  note written =
    C7_segment_written_in_six_properties [OF h1, THEN conjunct2, THEN conjunct1, rule_format,
      of "[ex_fare]"]
  note untouched = C7_segment_written_in_six_properties [OF g1, THEN conjunct2, THEN conjunct2]
  show ?thesis
    using written untouched h0 g0 f n t i by simp
qed

theorem C7_counterexample:
  "seg_Fr ex_seg = None \<and> seg_l_HB ex_seg = Undefined \<and> seg_Comm ex_seg = None
   \<and> segmentAfter (ex_call ex_seg ex_Res_L) \<noteq> None
   \<and> seg_Fr (the (segmentAfter (ex_call ex_seg ex_Res_L))) = Some ex_fare
   \<and> seg_l_HB (the (segmentAfter (ex_call ex_seg ex_Res_L))) = Bool True
   \<and> seg_CBAMT (the (segmentAfter (ex_call ex_seg ex_Res_L))) = Some 0
   \<and> seg_Comm (the (segmentAfter (ex_call ex_seg ex_Res_L))) = Some 9
   \<and> seg_TDS (the (segmentAfter (ex_call ex_seg ex_Res_L))) = Some 0
   \<and> seg_SF (the (segmentAfter (ex_call ex_seg ex_Res_L))) = Some 6"
  by code_simp

subsection \<open>C8: the coupon list\<close>

text \<open>
  C8. For every call that returns on a segment with a non-empty list of fares whose
  selected fare has a coupon-code list that is not null: when the segment is flagged round
  trip (\<^verbatim>\<open>I_RT\<close> true) the coupon properties of the record are cleared, whatever the
  list holds (code list the empty text, additional-coupon flag false, display text empty,
  list discount 0); otherwise the code list, the discount amount, the additional-coupon
  flag and the display text of the fare are in the record as they are in the fare.
\<close>

theorem C8_coupon_list_adopted_or_cleared:
  assumes "outputRecord (ConvertSegFinal tza seg Res_L org des frArmy frArmyRT NoAdt NoChd NoInf
             FFare_L isRT fareId) = Some r"
    and "seg_lstFr seg = Some frs" and "frs \<noteq> []"
    and "\<not> nullish (fr_CouponCodeList (frs ! fareId))"
  shows "(seg_I_RT seg = Some True \<longrightarrow>
            Seg_L_CCL r = Str '''' \<and> Seg_L_IACL r = Bool False
          \<and> Seg_L_CpnTxtS r = Str '''' \<and> Seg_L_CpnLstDis r = Num 0)
       \<and> (seg_I_RT seg \<noteq> Some True \<longrightarrow>
            Seg_L_CCL r = fr_CouponCodeList (frs ! fareId)
          \<and> Seg_L_CpnLstDis r = fr_DA (frs ! fareId)
          \<and> Seg_L_IACL r = fr_isAddCL (frs ! fareId)
          \<and> Seg_L_CpnTxtS r = fr_CpnTxtS (frs ! fareId))"
proof (rule outputRecord_Some [OF assms(1)])
  fix s v
  assume v: "ConvertSegFinal tza seg Res_L org des frArmy frArmyRT NoAdt NoChd NoInf FFare_L isRT
               fareId = Inr (s, v)" "r = record_of v"
  show ?thesis
  proof (rule ConvertSegFinal_listed [OF v(1) assms(2,3)])
    fix rows S0 S1 S2 S3 hb
    assume st: "selectFare (l_HB_written seg fareId) fareId S0
         = Inr ((l_HB_written seg fareId)\<lparr>seg_Fr := Some (frs ! fareId)\<rparr>, S1)"
      "priceSegment ((l_HB_written seg fareId)\<lparr>seg_Fr := Some (frs ! fareId)\<rparr>)
         NoAdt NoChd NoInf FFare_L S1 = Inr (s, S2)"
      "finishRecord s org des isRT fareId hb S2 = Inr S3"
      "record_of v = S3\<lparr>Seg_L_IsFlightOutOfPolicy := seg_IsFlightOutOfPolicy s\<rparr>"
    have l1: "seg_lstFr (l_HB_written seg fareId) = Some frs" using assms(2) by simp
    note c = selectFare_coupon [OF st(1) l1 assms(3,4), simplified]
    note p = priceSegment_keeps [OF st(2)]
    note k = finishRecord_keeps [OF st(3)]
    have "Seg_L_CCL r = (if seg_I_RT seg = Some True then Str '''' else fr_CouponCodeList (frs ! fareId))"
      using c(1) p(2) k(2) by (simp add: v(2) st(4))
    moreover have "Seg_L_IACL r = (if seg_I_RT seg = Some True then Bool False else fr_isAddCL (frs ! fareId))"
      using c(2) p(3) k(3) by (simp add: v(2) st(4))
    moreover have "Seg_L_CpnTxtS r = (if seg_I_RT seg = Some True then Str '''' else fr_CpnTxtS (frs ! fareId))"
      using c(3) p(4) k(4) by (simp add: v(2) st(4))
    moreover have "Seg_L_CpnLstDis r = (if seg_I_RT seg = Some True then Num 0 else fr_DA (frs ! fareId))"
      using c(4) p(5) k(5) by (simp add: v(2) st(4))
    ultimately show ?thesis by simp
  qed
qed

theorem C8_witness:
  "outputRecord (ex_call ex_seg_rt ex_Res_L) \<noteq> None
   \<and> seg_I_RT ex_seg_rt = Some True \<and> seg_lstFr ex_seg_rt = Some [ex_fare]
   \<and> fr_CouponCodeList ex_fare = Arr [Str ''FLY50'']
   \<and> Seg_L_CCL (the (outputRecord (ex_call ex_seg_rt ex_Res_L))) = Str ''''
   \<and> Seg_L_IACL (the (outputRecord (ex_call ex_seg_rt ex_Res_L))) = Bool False
   \<and> Seg_L_CpnTxtS (the (outputRecord (ex_call ex_seg_rt ex_Res_L))) = Str ''''
   \<and> Seg_L_CpnLstDis (the (outputRecord (ex_call ex_seg_rt ex_Res_L))) = Num 0
   \<and> outputRecord (ex_call ex_seg ex_Res_L) \<noteq> None
   \<and> seg_I_RT ex_seg = None \<and> seg_lstFr ex_seg = Some [ex_fare]
   \<and> Seg_L_CCL (the (outputRecord (ex_call ex_seg ex_Res_L))) = Arr [Str ''FLY50'']
   \<and> Seg_L_CpnLstDis (the (outputRecord (ex_call ex_seg ex_Res_L))) = Num 50
   \<and> Seg_L_IACL (the (outputRecord (ex_call ex_seg ex_Res_L))) = Bool True
   \<and> Seg_L_CpnTxtS (the (outputRecord (ex_call ex_seg ex_Res_L))) = Str ''Save 50''"
proof -
  have h0: "outputRecord (ex_call ex_seg_rt ex_Res_L) \<noteq> None" by code_simp
  then have h1: "outputRecord (ConvertSegFinal 0 ex_seg_rt ex_Res_L ''DEL'' ''BOM'' '''' '''' 2 1 0
                   ex_FFare_L False 0) = Some (the (outputRecord (ex_call ex_seg_rt ex_Res_L)))"
    by (simp add: ex_call_def)
  have g0: "outputRecord (ex_call ex_seg ex_Res_L) \<noteq> None" by code_simp
  then have g1: "outputRecord (ConvertSegFinal 0 ex_seg ex_Res_L ''DEL'' ''BOM'' '''' '''' 2 1 0
                   ex_FFare_L False 0) = Some (the (outputRecord (ex_call ex_seg ex_Res_L)))"
    by (simp add: ex_call_def)
  have f: "seg_lstFr ex_seg_rt = Some [ex_fare]" "seg_lstFr ex_seg = Some [ex_fare]"
    "seg_I_RT ex_seg_rt = Some True" "seg_I_RT ex_seg = None"
    by (simp_all add: ex_seg_rt_def ex_seg_def)
  have ne: "[ex_fare] \<noteq> []" by simp
  have c: "\<not> nullish (fr_CouponCodeList ([ex_fare] ! 0))"
    by (simp add: nullish_def ex_fare_def)
  have e: "fr_CouponCodeList ex_fare = Arr [Str ''FLY50'']" "fr_DA ex_fare = Num 50"
    "fr_isAddCL ex_fare = Bool True" "fr_CpnTxtS ex_fare = Str ''Save 50''"
    by (simp_all add: ex_fare_def)
  show ?thesis
    using C8_coupon_list_adopted_or_cleared [OF h1 f(1) ne c]
      C8_coupon_list_adopted_or_cleared [OF g1 f(2) ne c] h0 g0 f e
    by simp
qed

subsection \<open>C9: the coupon code\<close>

text \<open>
  C9. For every call that returns on a segment with a non-empty list of fares and the
  selected index in range, the coupon code of the record is the coupon code of the selected
  fare when the discounted total \<^verbatim>\<open>TTDIS\<close> of the fare is strictly less than its total
  fare \<^verbatim>\<open>TF\<close>, and the empty text otherwise. For every call that returns, when the coupon
  code of the record is the empty text, its discount amount is 0.
\<close>

theorem C9_coupon_code_and_discount:
  assumes "outputRecord (ConvertSegFinal tza seg Res_L org des frArmy frArmyRT NoAdt NoChd NoInf
             FFare_L isRT fareId) = Some r"
  shows "(\<forall>frs. seg_lstFr seg = Some frs \<and> frs \<noteq> [] \<and> fareId < length frs \<longrightarrow>
            Seg_L_CouponCode r =
              (if fr_TTDIS (frs ! fareId) < fr_TF (frs ! fareId) then fr_CC (frs ! fareId)
               else Some ''''))
       \<and> (Seg_L_CouponCode r = Some '''' \<longrightarrow> Seg_L_DiscountAmount r = Num 0)"
proof (rule outputRecord_Some [OF assms])
  fix s v
  assume v: "ConvertSegFinal tza seg Res_L org des frArmy frArmyRT NoAdt NoChd NoInf FFare_L isRT
               fareId = Inr (s, v)" "r = record_of v"
  show ?thesis
  proof (rule ConvertSegFinal_Inr [OF v(1)])
    fix seg1 idFareBK isHndBGG bonds seg2 S1 S2 S3
    assume st: "finishRecord s org des isRT fareId isHndBGG S2 = Inr S3" "v = finalReturn s S3"
    note c = finishRecord_coupon [OF st(1)]
    have l: "seg_lstFr s = seg_lstFr seg" by (subst segment_frame [OF v(1)]) simp
    have r: "Seg_L_CouponCode r = Seg_L_CouponCode S3"
      "Seg_L_DiscountAmount r = Seg_L_DiscountAmount S3"
      by (simp_all add: v(2) st(2) record_of_finalReturn)
    have "\<forall>frs. seg_lstFr seg = Some frs \<and> frs \<noteq> [] \<and> fareId < length frs \<longrightarrow>
            Seg_L_CouponCode r =
              (if fr_TTDIS (frs ! fareId) < fr_TF (frs ! fareId) then fr_CC (frs ! fareId)
               else Some '''')"
      using c(1) l r(1) by (auto simp: couponCode_def nth_opt_def split: if_splits)
    moreover have "Seg_L_CouponCode r = Some '''' \<longrightarrow> Seg_L_DiscountAmount r = Num 0"
      using c(2) r by simp
    ultimately show ?thesis by blast
  qed
qed

theorem C9_witness:
  "outputRecord (ex_call ex_seg ex_Res_L) \<noteq> None
   \<and> seg_lstFr ex_seg = Some [ex_fare]
   \<and> fr_TTDIS ex_fare = 150 \<and> fr_TF ex_fare = 200 \<and> fr_CC ex_fare = Some ''FLY50''
   \<and> Seg_L_CouponCode (the (outputRecord (ex_call ex_seg ex_Res_L))) = Some ''FLY50''
   \<and> outputRecord (ex_call ex_seg_full_price ex_Res_L) \<noteq> None
   \<and> seg_lstFr ex_seg_full_price = Some [ex_fare\<lparr>fr_TTDIS := 200\<rparr>]
   \<and> Seg_L_CouponCode (the (outputRecord (ex_call ex_seg_full_price ex_Res_L))) = Some ''''
   \<and> Seg_L_DiscountAmount (the (outputRecord (ex_call ex_seg_full_price ex_Res_L))) = Num 0"
proof -
  have h0: "outputRecord (ex_call ex_seg ex_Res_L) \<noteq> None" by code_simp
  then have h1: "outputRecord (ConvertSegFinal 0 ex_seg ex_Res_L ''DEL'' ''BOM'' '''' '''' 2 1 0
                   ex_FFare_L False 0) = Some (the (outputRecord (ex_call ex_seg ex_Res_L)))"
    by (simp add: ex_call_def)
  have g0: "outputRecord (ex_call ex_seg_full_price ex_Res_L) \<noteq> None" by code_simp
  then have g1: "outputRecord (ConvertSegFinal 0 ex_seg_full_price ex_Res_L ''DEL'' ''BOM'' ''''
                   '''' 2 1 0 ex_FFare_L False 0)
                 = Some (the (outputRecord (ex_call ex_seg_full_price ex_Res_L)))"
    by (simp add: ex_call_def)
  have f: "seg_lstFr ex_seg = Some [ex_fare]"
    "seg_lstFr ex_seg_full_price = Some [ex_fare\<lparr>fr_TTDIS := 200\<rparr>]"
    by (simp_all add: ex_seg_full_price_def ex_seg_def)
  have e: "fr_TTDIS ex_fare = 150" "fr_TF ex_fare = 200" "fr_CC ex_fare = Some ''FLY50''"
    by (simp_all add: ex_fare_def)
  from C9_coupon_code_and_discount [OF h1] f(1) e
  have a: "Seg_L_CouponCode (the (outputRecord (ex_call ex_seg ex_Res_L))) = Some ''FLY50''"
    by simp
  from C9_coupon_code_and_discount [OF g1] f(2) e
  have b: "Seg_L_CouponCode (the (outputRecord (ex_call ex_seg_full_price ex_Res_L))) = Some ''''"
    by simp
  from C9_coupon_code_and_discount [OF g1] b
  have c: "Seg_L_DiscountAmount (the (outputRecord (ex_call ex_seg_full_price ex_Res_L))) = Num 0"
    by simp
  show ?thesis using h0 g0 f e a b c by simp
qed

subsection \<open>C10: the fare of the record\<close>

text \<open>
  C10. For every call that returns on a segment with a non-empty list of fares, the fare
  of the record is the fare object \<^verbatim>\<open>FFare_L\<close> that the caller passed: the record that
  lines 444 to 454 assemble from the selected fare is overwritten by line 455 and is not
  in the output. When the segment has no selected fare (no fare in the list and none in
  \<^verbatim>\<open>Fr\<close>), the fare of the record is null.
\<close>

theorem C10_fare_is_the_callers:
  assumes "outputRecord (ConvertSegFinal tza seg Res_L org des frArmy frArmyRT NoAdt NoChd NoInf
             FFare_L isRT fareId) = Some r"
  shows "((\<exists>frs. seg_lstFr seg = Some frs \<and> frs \<noteq> []) \<longrightarrow> Seg_L_Fare r = FFare_L)
       \<and> Seg_L_Fare r = (if hasSelectedFare seg then FFare_L else None)"
proof (rule outputRecord_Some [OF assms])
  fix s v
  assume v: "ConvertSegFinal tza seg Res_L org des frArmy frArmyRT NoAdt NoChd NoInf FFare_L isRT
               fareId = Inr (s, v)" "r = record_of v"
  have "Seg_L_Fare r = (if hasSelectedFare seg then FFare_L else None)"
  proof (cases seg rule: hasSelectedFare_cases)
    case (listed frs)
    show ?thesis
    proof (rule ConvertSegFinal_listed [OF v(1) listed])
      fix rows S0 S1 S2 S3 hb
      assume st: "priceSegment ((l_HB_written seg fareId)\<lparr>seg_Fr := Some (frs ! fareId)\<rparr>)
           NoAdt NoChd NoInf FFare_L S1 = Inr (s, S2)"
        "finishRecord s org des isRT fareId hb S2 = Inr S3"
        "record_of v = S3\<lparr>Seg_L_IsFlightOutOfPolicy := seg_IsFlightOutOfPolicy s\<rparr>"
      have "Seg_L_Fare S2 = FFare_L" using priceSegment_aggregated(4) [OF st(1)] by simp
      then show ?thesis
        using finishRecord_keeps(6) [OF st(2)] listed
        by (simp add: v(2) st(3) hasSelectedFare_def)
    qed
  next
    case (carried Fr)
    show ?thesis
    proof (rule ConvertSegFinal_unlisted [OF v(1) carried(1)])
      fix bonds S2 S3 hb
      assume st: "priceSegment seg NoAdt NoChd NoInf FFare_L
             ((initial_Seg_L seg org des)\<lparr>Seg_L_bonds := bonds\<rparr>) = Inr (s, S2)"
        "finishRecord s org des isRT fareId hb S2 = Inr S3"
        "record_of v = S3\<lparr>Seg_L_IsFlightOutOfPolicy := seg_IsFlightOutOfPolicy s\<rparr>"
      have "Seg_L_Fare S2 = FFare_L" using priceSegment_aggregated(4) [OF st(1) carried(2)] .
      then show ?thesis
        using finishRecord_keeps(6) [OF st(2)] carried(2)
        by (simp add: v(2) st(3) hasSelectedFare_def)
    qed
  next
    case none
    show ?thesis
    proof (rule ConvertSegFinal_unlisted [OF v(1) none(1)])
      fix bonds S2 S3 hb
      assume st: "priceSegment seg NoAdt NoChd NoInf FFare_L
             ((initial_Seg_L seg org des)\<lparr>Seg_L_bonds := bonds\<rparr>) = Inr (s, S2)"
        "finishRecord s org des isRT fareId hb S2 = Inr S3"
        "record_of v = S3\<lparr>Seg_L_IsFlightOutOfPolicy := seg_IsFlightOutOfPolicy s\<rparr>"
      have "Seg_L_Fare S2 = None"
        using priceSegment_flat(13) [OF st(1) none(2)] by (simp add: initial_Seg_L_def)
      then show ?thesis
        using finishRecord_keeps(6) [OF st(2)] none
        by (auto simp: v(2) st(3) hasSelectedFare_def)
    qed
  qed
  then show ?thesis by (auto simp: hasSelectedFare_def)
qed

theorem C10_witness:
  "outputRecord (ex_call ex_seg ex_Res_L) \<noteq> None
   \<and> seg_lstFr ex_seg = Some [ex_fare]
   \<and> Seg_L_Fare (the (outputRecord (ex_call ex_seg ex_Res_L))) = ex_FFare_L
   \<and> ex_FFare_L \<noteq> Some (assembledFare ex_fare)
   \<and> outputRecord (ex_call ex_seg_flat ex_Res_L) \<noteq> None
   \<and> \<not> hasSelectedFare ex_seg_flat
   \<and> Seg_L_Fare (the (outputRecord (ex_call ex_seg_flat ex_Res_L))) = None"
proof -
  have h0: "outputRecord (ex_call ex_seg ex_Res_L) \<noteq> None" by code_simp
  then have h1: "outputRecord (ConvertSegFinal 0 ex_seg ex_Res_L ''DEL'' ''BOM'' '''' '''' 2 1 0
                   ex_FFare_L False 0) = Some (the (outputRecord (ex_call ex_seg ex_Res_L)))"
    by (simp add: ex_call_def)
  have g0: "outputRecord (ex_call ex_seg_flat ex_Res_L) \<noteq> None" by code_simp
  then have g1: "outputRecord (ConvertSegFinal 0 ex_seg_flat ex_Res_L ''DEL'' ''BOM'' '''' '''' 2 1
                   0 ex_FFare_L False 0)
                 = Some (the (outputRecord (ex_call ex_seg_flat ex_Res_L)))"
    by (simp add: ex_call_def)
  have f: "seg_lstFr ex_seg = Some [ex_fare]" by (simp add: ex_seg_def)
  have n: "\<not> hasSelectedFare ex_seg_flat"
    by (simp add: hasSelectedFare_def ex_seg_flat_def ex_seg_plain_def ex_seg_def)
  have d: "ex_FFare_L \<noteq> Some (assembledFare ex_fare)"
    by (simp add: ex_FFare_L_def assembledFare_def ex_fare_def)
  show ?thesis
    using C10_fare_is_the_callers [OF h1] C10_fare_is_the_callers [OF g1] h0 g0 f n d
    by simp
qed

end
